theory Spec2Isabelle
  imports Complex_Main
begin

section \<open>Python values\<close>

text \<open>
  Python floats are modelled as reals: order and arithmetic are kept, rounding error and
  overflow are not.  Exceptions are values of \<open>exn\<close>.
\<close>

datatype exn = ValueError | KeyError | IndexError | TypeError | LibraryError

text \<open>\<open>d.get(k, default)\<close> on a dictionary kept as an association list.\<close>

definition dict_get :: "(string \<times> 'a) list \<Rightarrow> string \<Rightarrow> 'a \<Rightarrow> 'a" where
  "dict_get d k dflt = (case map_of d k of None \<Rightarrow> dflt | Some v \<Rightarrow> v)"

text \<open>
  Python's \<open>round(x, n)\<close> works on the binary float, which the reals do not model:
  a rounded value is kept as the pair of the value and the number of digits.
\<close>

datatype rounded = PyRound real nat


section \<open>The dial-in optimizer service (ai-engine/main.py)\<close>

text \<open>
  The service keeps one Optuna study per (bean, user, method) context in a relational
  storage. A study is its ordered list of trials; the storage maps a study name to the
  study. Scores and parameters are Python floats: they are modelled as reals, so only
  their order and arithmetic are kept, not their rounding. Timestamps and the
  free-text \<open>message\<close> fields of the responses are left out of the model.
\<close>

datatype trial_state = PENDING | COMPLETE

record trial =
  number :: nat
  state :: trial_state
  params :: "(string \<times> real) list"
  user_attrs :: "(string \<times> real option) list"
  trial_value :: "real option"

type_synonym study = "trial list"

type_synonym storage = "string \<Rightarrow> study option"

datatype study_error = TrialNotFound | TrialAlreadyComplete | FrozenTrialRefused

subsection \<open>The study object\<close>

text \<open>
  Modelled from the spec: the Optuna library (\<open>Study.ask\<close>, \<open>Study.tell\<close>,
  \<open>Trial.suggest_float\<close>, \<open>Trial.set_user_attr\<close>, \<open>Study.best_trial\<close>) is not part
  of the repository's sources; \<open>main.py\<close> only calls it.  \<open>ask\<close> allocates the next
  trial number and stores the trial as PENDING.
\<close>

definition ask :: "study \<Rightarrow> nat \<times> study" where
  "ask s = (length s,
     s @ [\<lparr>number = length s, state = PENDING, params = [], user_attrs = [],
           trial_value = None\<rparr>])"

text \<open>
  Modelled from the spec: the candidate value itself comes from the search strategy,
  which is stochastic; it is an argument here.  The trial records the parameter.
\<close>

definition suggest_float :: "nat \<Rightarrow> string \<Rightarrow> real \<Rightarrow> study \<Rightarrow> study" where
  "suggest_float n name v s =
     map (\<lambda>t. if number t = n then t\<lparr>params := params t @ [(name, v)]\<rparr> else t) s"

text \<open>
  Modelled from the spec: a user attribute is recorded with the trial; the handler stores
  the parameters of a reported shot this way.
\<close>

definition set_user_attr :: "nat \<Rightarrow> string \<Rightarrow> real option \<Rightarrow> study \<Rightarrow> study" where
  "set_user_attr n name v s =
     map (\<lambda>t. if number t = n then t\<lparr>user_attrs := user_attrs t @ [(name, v)]\<rparr> else t) s"

text \<open>
  Modelled from the spec: \<open>tell\<close> locates the trial by number; it fails with
  \<open>TrialNotFound\<close> if absent and with \<open>TrialAlreadyComplete\<close> if the trial is COMPLETE
  (no overwrite); otherwise it records the score and sets the state to COMPLETE.
\<close>

definition tell :: "nat \<Rightarrow> real \<Rightarrow> study \<Rightarrow> study_error + study" where
  "tell n v s =
     (case find (\<lambda>t. number t = n) s of
        None \<Rightarrow> Inl TrialNotFound
      | Some t \<Rightarrow>
          if state t = COMPLETE then Inl TrialAlreadyComplete
          else Inr (map (\<lambda>u. if number u = n
                               then u\<lparr>state := COMPLETE, trial_value := Some v\<rparr>
                               else u) s))"

text \<open>
  Optuna's \<open>Study.tell\<close> takes a \<open>Trial\<close>, as \<open>ask\<close> returns it, or a trial number.
  Given a \<open>FrozenTrial\<close>, which is what \<open>study.trials\<close> holds, it raises \<open>TypeError\<close>
  and stores nothing.
\<close>

definition tell_frozen :: "trial \<Rightarrow> real \<Rightarrow> study \<Rightarrow> study_error + study" where
  "tell_frozen t v s = Inl FrozenTrialRefused"

text \<open>
  Modelled from the spec: \<open>bestTrial\<close> is the COMPLETE trial with maximal score, ties
  broken by the lowest trial number, or none.  The trial list is scanned once; a
  COMPLETE trial replaces the incumbent when it \<open>beats\<close> it.  In the handlers, reading
  \<open>study.best_trial\<close> of a study without COMPLETE trial raises \<open>ValueError\<close>: there
  \<open>None\<close> is the exception, which the handler's \<open>except Exception\<close> turns into a 500.
\<close>

definition beats :: "trial \<Rightarrow> trial \<Rightarrow> bool" where
  "beats t c =
     (case trial_value t of
        None \<Rightarrow> False
      | Some x \<Rightarrow>
          (case trial_value c of
             None \<Rightarrow> True
           | Some y \<Rightarrow> y < x \<or> (x = y \<and> number t < number c)))"

fun pick_best :: "trial option \<Rightarrow> trial list \<Rightarrow> trial option" where
  "pick_best b [] = b"
| "pick_best b (t # ts) =
     pick_best
       (if state t = COMPLETE
        then (case b of None \<Rightarrow> Some t | Some c \<Rightarrow> if beats t c then Some t else Some c)
        else b) ts"

definition best_trial :: "study \<Rightarrow> trial option" where
  "best_trial s = pick_best None s"

text \<open>A sequence of ask/tell operations on a fresh study; a failing \<open>tell\<close> changes nothing.\<close>

datatype study_op =
    Ask
  | Tell nat real
  | SuggestFloat nat string real
  | SetUserAttr nat string "real option"

fun apply_study_op :: "study \<Rightarrow> study_op \<Rightarrow> study" where
  "apply_study_op s Ask = snd (ask s)"
| "apply_study_op s (Tell n v) = (case tell n v s of Inl e \<Rightarrow> s | Inr s' \<Rightarrow> s')"
| "apply_study_op s (SuggestFloat n name v) = suggest_float n name v s"
| "apply_study_op s (SetUserAttr n name v) = set_user_attr n name v s"

definition run_ops :: "study_op list \<Rightarrow> study" where
  "run_ops ops = foldl apply_study_op [] ops"

subsection \<open>Request handlers\<close>

datatype http_detail =
    TrialNotInStudy
  | NoOptimizationData
  | NoTrialsCompleted
  | OptimizationFailed
  | ReportFailed
  | StatusFailed
  | BestParametersFailed

datatype http_error = HTTPException nat http_detail

definition get_study_name :: "string \<Rightarrow> string option \<Rightarrow> string \<Rightarrow> string" where
  "get_study_name bean_id user_id method =
     (case user_id of
        None \<Rightarrow> ''bean_'' @ bean_id @ ''_'' @ method
      | Some u \<Rightarrow>
          if u = [] then ''bean_'' @ bean_id @ ''_'' @ method
          else ''user_'' @ u @ ''_bean_'' @ bean_id @ ''_'' @ method)"

text \<open>\<open>get_or_create_study\<close> loads the study or creates an empty one (\<open>load_if_exists\<close>).\<close>

definition get_or_create_study :: "string \<Rightarrow> storage \<Rightarrow> study" where
  "get_or_create_study study_name st = (case st study_name of None \<Rightarrow> [] | Some s \<Rightarrow> s)"

record best_info =
  bi_trial_number :: nat
  bi_parameters :: "(string \<times> real) list"
  bi_score :: "real option"

definition info_of :: "trial \<Rightarrow> best_info" where
  "info_of t = \<lparr>bi_trial_number = number t, bi_parameters = params t, bi_score = trial_value t\<rparr>"

record ReportData =
  rd_bean_id :: string
  rd_user_id :: "string option"
  rd_method :: string
  rd_trial_number :: int
  rd_taste_score :: real

datatype report_response =
    AlreadyCompleted int "real option"
  | ReportSuccess int real best_info nat

text \<open>
  \<open>report_result\<close>: the handler returns its response and the storage it leaves.
  \<open>optuna.load_study\<close> raises \<open>KeyError\<close> for an unknown study, which the handler's
  \<open>except Exception\<close> turns into a 500.  The trial found in \<open>study.trials\<close> is a
  \<open>FrozenTrial\<close>, and that is what the handler passes to \<open>tell\<close>.
\<close>

definition report_result :: "storage \<Rightarrow> ReportData \<Rightarrow> (http_error + report_response) \<times> storage" where
  "report_result st data =
     (let study_name = get_study_name (rd_bean_id data) (rd_user_id data) (rd_method data)
      in case st study_name of
           None \<Rightarrow> (Inl (HTTPException 500 ReportFailed), st)
         | Some study \<Rightarrow>
             (case find (\<lambda>t. int (number t) = rd_trial_number data) study of
                None \<Rightarrow> (Inl (HTTPException 404 TrialNotInStudy), st)
              | Some trial \<Rightarrow>
                  if state trial = COMPLETE
                  then (Inr (AlreadyCompleted (rd_trial_number data) (trial_value trial)), st)
                  else (case tell_frozen trial (rd_taste_score data) study of
                          Inl e \<Rightarrow> (Inl (HTTPException 500 ReportFailed), st)
                        | Inr study' \<Rightarrow>
                            (case best_trial study' of
                               None \<Rightarrow> (Inl (HTTPException 500 ReportFailed),
                                         st(study_name \<mapsto> study'))
                             | Some b \<Rightarrow>
                                 (Inr (ReportSuccess (rd_trial_number data) (rd_taste_score data)
                                         (info_of b) (length study')),
                                  st(study_name \<mapsto> study'))))))"

datatype status_response =
    NotStarted string nat
  | Active string nat "best_info option" "best_info list"

definition get_optimization_status ::
  "storage \<Rightarrow> string \<Rightarrow> string option \<Rightarrow> string \<Rightarrow> http_error + status_response" where
  "get_optimization_status st bean_id user_id method =
     (let study_name = get_study_name bean_id user_id method
      in case st study_name of
           None \<Rightarrow> Inr (NotStarted study_name 0)
         | Some study \<Rightarrow>
             (let recent = map info_of
                             (filter (\<lambda>t. state t = COMPLETE) (drop (length study - 5) study))
              in if length study > 0
                 then (case best_trial study of
                         None \<Rightarrow> Inl (HTTPException 500 StatusFailed)
                       | Some bt \<Rightarrow>
                           Inr (Active study_name (length study) (Some (info_of bt)) recent))
                 else Inr (Active study_name (length study) None recent)))"

record best_parameters =
  bp_study_name :: string
  bp_trial_number :: nat
  bp_grind :: rounded
  bp_dose :: rounded
  bp_time :: rounded
  bp_score :: "real option"
  bp_total_trials :: nat

definition get_best_parameters ::
  "storage \<Rightarrow> string \<Rightarrow> string option \<Rightarrow> string \<Rightarrow> http_error + best_parameters" where
  "get_best_parameters st bean_id user_id method =
     (let study_name = get_study_name bean_id user_id method
      in case st study_name of
           None \<Rightarrow> Inl (HTTPException 404 NoOptimizationData)
         | Some study \<Rightarrow>
             if length study = 0 then Inl (HTTPException 404 NoTrialsCompleted)
             else (case best_trial study of
                     None \<Rightarrow> Inl (HTTPException 500 BestParametersFailed)
                   | Some b \<Rightarrow>
                       Inr \<lparr>bp_study_name = study_name,
                            bp_trial_number = number b,
                            bp_grind = PyRound (dict_get (params b) ''grind'' 0) 1,
                            bp_dose = PyRound (dict_get (params b) ''dose'' 0) 1,
                            bp_time = PyRound (dict_get (params b) ''time'' 0) 1,
                            bp_score = trial_value b,
                            bp_total_trials = length study\<rparr>))"

record ShotData =
  sd_bean_id :: string
  sd_user_id :: "string option"
  sd_method :: string
  sd_grind :: "real option"
  sd_dose :: "real option"
  sd_time :: "real option"
  sd_taste_score :: "real option"

record RecommendationResponse =
  rr_study_name :: string
  rr_trial_number :: nat
  rr_grind :: rounded
  rr_dose :: rounded
  rr_target_time :: rounded
  rr_best_so_far :: "best_info option"
  rr_total_trials :: nat

text \<open>
  \<open>recommend_next_shot\<close>: optional feedback is told on a freshly asked trial, then the
  next trial is asked.  The three values the sampler suggests are the arguments
  \<open>g\<close>, \<open>d\<close>, \<open>t\<close>.  Whatever was written to the study before an exception
  stays in the storage.
\<close>

definition recommend_next_shot ::
  "storage \<Rightarrow> ShotData \<Rightarrow> real \<Rightarrow> real \<Rightarrow> real
     \<Rightarrow> (http_error + RecommendationResponse) \<times> storage" where
  "recommend_next_shot st data g d t =
     (let study_name = get_study_name (sd_bean_id data) (sd_user_id data) (sd_method data);
          s0 = get_or_create_study study_name st;
          fed =
            (case sd_taste_score data of
               None \<Rightarrow> Inr s0
             | Some score \<Rightarrow>
                 (case sd_grind data of
                    None \<Rightarrow> Inr s0
                  | Some gr \<Rightarrow>
                      (let (n, s1) = ask s0;
                           s2 = set_user_attr n ''grind'' (Some gr) s1;
                           s3 = set_user_attr n ''dose'' (sd_dose data) s2;
                           s4 = set_user_attr n ''time'' (sd_time data) s3
                       in case tell n score s4 of Inl e \<Rightarrow> Inl s4 | Inr s5 \<Rightarrow> Inr s5)))
      in case fed of
           Inl s \<Rightarrow> (Inl (HTTPException 500 OptimizationFailed), st(study_name \<mapsto> s))
         | Inr s5 \<Rightarrow>
             (let (n, s6) = ask s5;
                  s7 = suggest_float n ''grind'' g s6;
                  s8 = suggest_float n ''dose'' d s7;
                  s9 = suggest_float n ''time'' t s8;
                  response = (\<lambda>best.
                    \<lparr>rr_study_name = study_name, rr_trial_number = n,
                     rr_grind = PyRound g 1, rr_dose = PyRound d 1,
                     rr_target_time = PyRound t 1,
                     rr_best_so_far = best, rr_total_trials = length s9\<rparr>)
              in if length s9 > 0
                 then (case best_trial s9 of
                         None \<Rightarrow> (Inl (HTTPException 500 OptimizationFailed),
                                   st(study_name \<mapsto> s9))
                       | Some bt \<Rightarrow> (Inr (response (Some (info_of bt))), st(study_name \<mapsto> s9)))
                 else (Inr (response None), st(study_name \<mapsto> s9))))"

subsection \<open>Well-formed studies\<close>

text \<open>
  Trial numbers are the positions in the trial list, and every COMPLETE trial carries a
  score.  Every study built by ask/tell operations is of this kind.
\<close>

definition wf_study :: "study \<Rightarrow> bool" where
  "wf_study s =
     (map number s = [0..<length s] \<and>
      list_all (\<lambda>t. state t = COMPLETE \<longrightarrow> trial_value t \<noteq> None) s)"

definition has_score :: "trial \<Rightarrow> bool" where
  "has_score t = (trial_value t \<noteq> None)"


section \<open>The recommendation service (ml_service)\<close>

subsection \<open>Historical shots and data frames\<close>

text \<open>
  A taste profile is the vector (sweetness, acidity, bitterness, body).  A data frame is
  kept row by row: every row has the four taste columns, \<open>shotQuality\<close> and a cell for
  each parameter column; the frame records which parameter columns it has and the dtype
  of each.  Missing values (NaN) are not modelled: every row has a value in every column.
\<close>

type_synonym taste = "real \<times> real \<times> real \<times> real"

datatype dtype = float64 | int64 | bool_dtype | other_dtype

datatype cell = CNum real | CFlag bool | CText string

record shot =
  sweetness :: real
  acidity :: real
  bitterness :: real
  body :: real
  shotQuality :: real
  cells :: "string \<Rightarrow> cell"

record clustered_shot = shot +
  cluster :: nat

record 'r frame =
  columns :: "string \<Rightarrow> dtype option"
  rows :: "'r list"

definition taste_of :: "'a shot_scheme \<Rightarrow> taste" where
  "taste_of s = (sweetness s, acidity s, bitterness s, body s)"

definition with_cluster :: "shot \<Rightarrow> nat \<Rightarrow> clustered_shot" where
  "with_cluster s l =
     \<lparr>sweetness = sweetness s, acidity = acidity s, bitterness = bitterness s, body = body s,
      shotQuality = shotQuality s, cells = cells s, cluster = l\<rparr>"

subsection \<open>Library functions taken as parameters\<close>

text \<open>
  pandas and scikit-learn are not part of the repository.  What the code asks of them
  is a parameter of the model: \<open>Series.mode\<close> (the list of modes of a column),
  \<open>Series.std\<close> (\<open>None\<close> stands for NaN), the fitted \<open>StandardScaler\<close> (a map on taste
  vectors) and the fitted \<open>KMeans\<close> (labels, centres, \<open>predict\<close>), whose fit may raise.
\<close>

record pandas =
  series_mode :: "cell list \<Rightarrow> cell list"
  series_std :: "real list \<Rightarrow> real option"

record kmeans =
  labels :: "nat list"
  cluster_centers :: "taste list"
  km_predict :: "taste \<Rightarrow> nat"

record sklearn =
  scaler_fit :: "taste list \<Rightarrow> taste \<Rightarrow> taste"
  kmeans_fit :: "nat \<Rightarrow> taste list \<Rightarrow> exn + kmeans"

text \<open>
  \<open>Series.mean\<close> is the arithmetic mean; \<open>numpy.linalg.norm\<close> the Euclidean norm.
  The mean of an empty column is NaN in pandas and 0 here; \<open>recommend\<close> takes it only
  of the quality shots, which are empty only for an empty cluster, where the call fails.
\<close>

definition mean :: "real list \<Rightarrow> real" where
  "mean xs = sum_list xs / real (length xs)"

fun euclid :: "taste \<Rightarrow> taste \<Rightarrow> real" where
  "euclid (a, b, c, d) (a', b', c', d') =
     sqrt ((a - a')\<^sup>2 + (b - b')\<^sup>2 + (c - c')\<^sup>2 + (d - d')\<^sup>2)"

text \<open>
  A one-cluster library instance: the scaler centres the profiles, and the clustering puts
  every profile in cluster 0 with the centre at the mean profile.
\<close>

definition mean_taste :: "taste list \<Rightarrow> taste" where
  "mean_taste ps =
     (mean (map fst ps), mean (map (fst \<circ> snd) ps),
      mean (map (fst \<circ> snd \<circ> snd) ps), mean (map (snd \<circ> snd \<circ> snd) ps))"

fun taste_minus :: "taste \<Rightarrow> taste \<Rightarrow> taste" where
  "taste_minus (a, b, c, d) (a', b', c', d') = (a - a', b - b', c - c', d - d')"

definition single_cluster :: sklearn where
  "single_cluster =
     \<lparr>scaler_fit = (\<lambda>ps x. taste_minus x (mean_taste ps)),
      kmeans_fit = (\<lambda>k ps. if k = 1 \<and> ps \<noteq> []
                             then Inr \<lparr>labels = replicate (length ps) 0,
                                       cluster_centers = [mean_taste ps],
                                       km_predict = (\<lambda>x. 0)\<rparr>
                             else Inl LibraryError)\<rparr>"

subsection \<open>ClusteringRecommender (recommendations/parameter_optimizer.py)\<close>

record recommender =
  historical_shots :: "clustered_shot frame option"
  transform :: "taste \<Rightarrow> taste"
  predict :: "taste \<Rightarrow> nat"
  centers :: "taste list"

definition taste_features :: "string list" where
  "taste_features = [''sweetness'', ''acidity'', ''bitterness'', ''body'']"

definition parameter_features :: "string list" where
  "parameter_features =
     [''grindSize'', ''extractionTime'', ''temperature'', ''inWeight'',
      ''pressure'', ''preInfusionTime'', ''usedWDT'', ''usedPuckScreen'']"

text \<open>
  \<open>fit\<close>: scale the taste profiles, cluster them, label every shot with its cluster.
  There is no check on the number of shots; the only failure is the library's.
  Assigning a label column of another length than the frame raises \<open>ValueError\<close>.
\<close>

definition fit :: "sklearn \<Rightarrow> nat \<Rightarrow> shot frame \<Rightarrow> exn + recommender" where
  "fit sk n_clusters shots_df =
     (let taste_profiles = map taste_of (rows shots_df);
          scaler = scaler_fit sk taste_profiles;
          taste_profiles_scaled = map scaler taste_profiles
      in case kmeans_fit sk n_clusters taste_profiles_scaled of
           Inl e \<Rightarrow> Inl e
         | Inr km \<Rightarrow>
             if length (labels km) \<noteq> length (rows shots_df) then Inl ValueError
             else Inr \<lparr>historical_shots =
                         Some \<lparr>columns = columns shots_df,
                               rows = map2 with_cluster (rows shots_df) (labels km)\<rparr>,
                       transform = scaler,
                       predict = km_predict km,
                       centers = cluster_centers km\<rparr>)"

definition target_array :: "(string \<times> real) list \<Rightarrow> taste" where
  "target_array target_profile =
     (dict_get target_profile ''sweetness'' 5,
      dict_get target_profile ''acidity'' 5,
      dict_get target_profile ''bitterness'' 5,
      dict_get target_profile ''body'' 5)"

text \<open>The three tiers of the quality filter.\<close>

definition select_quality_shots :: "clustered_shot list \<Rightarrow> clustered_shot list" where
  "select_quality_shots cluster_shots =
     (let best_shots = filter (\<lambda>s. 7 \<le> shotQuality s) cluster_shots;
          best_shots = (if length best_shots = 0
                        then filter (\<lambda>s. 6 \<le> shotQuality s) cluster_shots
                        else best_shots);
          best_shots = (if length best_shots = 0 then cluster_shots else best_shots)
      in best_shots)"

text \<open>
  Aggregation of one parameter column of the quality shots.  A column whose dtype is
  \<open>float64\<close>, \<open>int64\<close> or \<open>bool\<close> is averaged (numpy reads a boolean as 0 or 1); any
  other column yields \<open>mode()[0]\<close>, a \<open>KeyError\<close> when the mode list is empty.
  A text cell cannot occur in a column of the first three dtypes; \<open>as_float\<close> reads it
  as 0 to stay total.
\<close>

datatype pvalue = PFloat real | PCell cell

definition as_float :: "cell \<Rightarrow> real" where
  "as_float c = (case c of CNum x \<Rightarrow> x | CFlag b \<Rightarrow> (if b then 1 else 0) | CText s \<Rightarrow> 0)"

definition aggregate_column :: "pandas \<Rightarrow> dtype \<Rightarrow> cell list \<Rightarrow> exn + pvalue" where
  "aggregate_column pd dt col =
     (if dt = float64 \<or> dt = int64 \<or> dt = bool_dtype
      then Inr (PFloat (mean (map as_float col)))
      else (case series_mode pd col of
              [] \<Rightarrow> Inl KeyError
            | m # ms \<Rightarrow> Inr (PCell m)))"

fun aggregate_params ::
  "pandas \<Rightarrow> (string \<Rightarrow> dtype option) \<Rightarrow> clustered_shot list \<Rightarrow> string list
     \<Rightarrow> exn + (string \<times> pvalue) list" where
  "aggregate_params pd cols best_shots [] = Inr []"
| "aggregate_params pd cols best_shots (param # ps) =
     (case cols param of
        None \<Rightarrow> aggregate_params pd cols best_shots ps
      | Some dt \<Rightarrow>
          (case aggregate_column pd dt (map (\<lambda>s. cells s param) best_shots) of
             Inl e \<Rightarrow> Inl e
           | Inr v \<Rightarrow>
               (case aggregate_params pd cols best_shots ps of
                  Inl e \<Rightarrow> Inl e
                | Inr rest \<Rightarrow> Inr ((param, v) # rest))))"

text \<open>
  \<open>_apply_constraints\<close>: \<open>fixedParams\<close> changes nothing; every range clips its
  parameter when the parameter is recommended.  \<open>numpy.clip\<close> on text raises.
\<close>

record constraints =
  fixedParams :: "string list option"
  paramRanges :: "(string \<times> real \<times> real) list option"

definition clip :: "real \<Rightarrow> real \<Rightarrow> real \<Rightarrow> real" where
  "clip x min_val max_val = min (max x min_val) max_val"

definition pvalue_num :: "pvalue \<Rightarrow> real option" where
  "pvalue_num v =
     (case v of
        PFloat x \<Rightarrow> Some x
      | PCell c \<Rightarrow> (case c of CNum x \<Rightarrow> Some x
                            | CFlag b \<Rightarrow> Some (if b then 1 else 0)
                            | CText s \<Rightarrow> None))"

fun apply_ranges ::
  "(string \<times> pvalue) list \<Rightarrow> (string \<times> real \<times> real) list \<Rightarrow> exn + (string \<times> pvalue) list" where
  "apply_ranges ps [] = Inr ps"
| "apply_ranges ps ((param, min_val, max_val) # rs) =
     (case map_of ps param of
        None \<Rightarrow> apply_ranges ps rs
      | Some v \<Rightarrow>
          (case pvalue_num v of
             None \<Rightarrow> Inl TypeError
           | Some x \<Rightarrow>
               apply_ranges
                 (map (\<lambda>(k, w). if k = param then (k, PFloat (clip x min_val max_val)) else (k, w)) ps)
                 rs))"

definition apply_constraints ::
  "(string \<times> pvalue) list \<Rightarrow> constraints \<Rightarrow> exn + (string \<times> pvalue) list" where
  "apply_constraints ps cons =
     (case paramRanges cons of None \<Rightarrow> Inr ps | Some rs \<Rightarrow> apply_ranges ps rs)"

text \<open>
  \<open>_calculate_confidence\<close>.  Python's \<open>min(1.0, c)\<close> returns \<open>c\<close> only if \<open>c < 1.0\<close>,
  and \<open>max(0.0, m)\<close> returns \<open>m\<close> only if \<open>m > 0.0\<close>; a NaN compares false.  The
  standard deviation is computed before \<open>iloc[0]\<close> raises on an empty cluster.
\<close>

definition py_min_1 :: "real option \<Rightarrow> real" where
  "py_min_1 c = (case c of None \<Rightarrow> 1 | Some x \<Rightarrow> if x < 1 then x else 1)"

definition py_max_0 :: "real \<Rightarrow> real" where
  "py_max_0 m = (if 0 < m then m else 0)"

definition calculate_confidence ::
  "pandas \<Rightarrow> recommender \<Rightarrow> clustered_shot list \<Rightarrow> clustered_shot list \<Rightarrow> taste
     \<Rightarrow> exn + real" where
  "calculate_confidence pd r best_shots all_cluster_shots target_scaled =
     (let quality_ratio =
            real (length best_shots) / real (max (length all_cluster_shots) 1);
          cluster_consistency =
            map_option (\<lambda>sd. 1 - sd / 10)
              (series_std pd (map shotQuality all_cluster_shots))
      in case all_cluster_shots of
           [] \<Rightarrow> Inl IndexError
         | s # rest \<Rightarrow>
             if length (centers r) \<le> cluster s then Inl IndexError
             else
               (let cluster_center = centers r ! cluster s;
                    distance_from_center = euclid target_scaled cluster_center;
                    distance_confidence = py_max_0 (1 - distance_from_center / 2);
                    confidence =
                      map_option
                        (\<lambda>cc. 0.4 * quality_ratio + 0.3 * cc + 0.3 * distance_confidence)
                        cluster_consistency
                in Inr (py_max_0 (py_min_1 confidence))))"

record outcome =
  o_sweetness :: real
  o_acidity :: real
  o_bitterness :: real
  o_body :: real
  o_shotQuality :: real

definition calculate_taste_distance :: "outcome \<Rightarrow> (string \<times> real) list \<Rightarrow> real" where
  "calculate_taste_distance out target =
     euclid (o_sweetness out, o_acidity out, o_bitterness out, o_body out)
            (target_array target)"

text \<open>
  \<open>_generate_explanation\<close>: the texts are kept as a tag with the change they print.
  Subtracting from a recommended text value raises \<open>TypeError\<close>.
\<close>

datatype explanation =
    FinerGrind real
  | CoarserGrind real
  | HigherTemperature real
  | LowerTemperature real

definition explain_change ::
  "(string \<times> pvalue) list \<Rightarrow> (string \<times> real) list \<Rightarrow> string \<Rightarrow> real
     \<Rightarrow> (real \<Rightarrow> explanation) \<Rightarrow> (real \<Rightarrow> explanation)
     \<Rightarrow> exn + (string \<times> explanation) list" where
  "explain_change recommended current key threshold up down =
     (case map_of recommended key of
        None \<Rightarrow> Inr []
      | Some v \<Rightarrow>
          (case map_of current key of
             None \<Rightarrow> Inr []
           | Some c \<Rightarrow>
               (case pvalue_num v of
                  None \<Rightarrow> Inl TypeError
                | Some x \<Rightarrow>
                    (let change = x - c
                     in if threshold < \<bar>change\<bar>
                        then (if 0 < change then Inr [(key, up change)]
                              else Inr [(key, down change)])
                        else Inr []))))"

definition generate_explanation ::
  "(string \<times> pvalue) list \<Rightarrow> (string \<times> real) list option
     \<Rightarrow> exn + (string \<times> explanation) list" where
  "generate_explanation recommended current =
     (case current of
        None \<Rightarrow> Inr []
      | Some cur \<Rightarrow>
          if cur = [] then Inr []
          else (case explain_change recommended cur ''grindSize'' (1 / 2)
                       FinerGrind CoarserGrind of
                  Inl e \<Rightarrow> Inl e
                | Inr g \<Rightarrow>
                    (case explain_change recommended cur ''temperature'' 1
                            HigherTemperature LowerTemperature of
                       Inl e \<Rightarrow> Inl e
                     | Inr t \<Rightarrow> Inr (g @ t))))"

record recommendation =
  primary :: "(string \<times> pvalue) list"
  confidence :: real
  expectedOutcome :: outcome
  distanceFromTarget :: real
  clusterSize :: nat
  qualityShotsCount :: nat
  explanation :: "(string \<times> explanation) list"

definition recommend ::
  "pandas \<Rightarrow> recommender \<Rightarrow> (string \<times> real) list \<Rightarrow> constraints option
     \<Rightarrow> (string \<times> real) list option \<Rightarrow> exn + recommendation" where
  "recommend pd r target_profile cons current_params =
     (case historical_shots r of
        None \<Rightarrow> Inl ValueError
      | Some hist \<Rightarrow>
          (let target_scaled = transform r (target_array target_profile);
               cluster_id = predict r target_scaled;
               cluster_shots = filter (\<lambda>s. cluster s = cluster_id) (rows hist);
               best_shots = select_quality_shots cluster_shots
           in case aggregate_params pd (columns hist) best_shots parameter_features of
                Inl e \<Rightarrow> Inl e
              | Inr recommended \<Rightarrow>
                  (case (case cons of None \<Rightarrow> Inr recommended
                                    | Some c \<Rightarrow> apply_constraints recommended c) of
                     Inl e \<Rightarrow> Inl e
                   | Inr recommended_params \<Rightarrow>
                       (case calculate_confidence pd r best_shots cluster_shots target_scaled of
                          Inl e \<Rightarrow> Inl e
                        | Inr conf \<Rightarrow>
                            (let expected_outcome =
                                   \<lparr>o_sweetness = mean (map sweetness best_shots),
                                    o_acidity = mean (map acidity best_shots),
                                    o_bitterness = mean (map bitterness best_shots),
                                    o_body = mean (map body best_shots),
                                    o_shotQuality = mean (map shotQuality best_shots)\<rparr>;
                                 distance = calculate_taste_distance expected_outcome target_profile
                             in case generate_explanation recommended_params current_params of
                                  Inl e \<Rightarrow> Inl e
                                | Inr expl \<Rightarrow>
                                    Inr \<lparr>primary = recommended_params,
                                         confidence = conf,
                                         expectedOutcome = expected_outcome,
                                         distanceFromTarget = distance,
                                         clusterSize = length cluster_shots,
                                         qualityShotsCount = length best_shots,
                                         explanation = expl\<rparr>)))))"

text \<open>The target profile with every absent taste dimension set to 5.\<close>

definition with_defaults :: "(string \<times> real) list \<Rightarrow> (string \<times> real) list" where
  "with_defaults target_profile =
     target_profile @
     map (\<lambda>d. (d, 5)) (filter (\<lambda>d. d \<notin> fst ` set target_profile) taste_features)"

subsection \<open>The Flask service (app.py)\<close>

text \<open>
  \<open>load_models\<close>, as far as the recommender goes.  \<open>model_loaded\<close> says that the
  model file exists and the predictor loads; without it nothing else is done.
  \<open>historical_df\<close> is the first historical data file that exists and loads, if any.
  The recommender is fitted only on more than 10 historical shots, with
  \<open>min(5, len // 10)\<close> clusters; otherwise, and on any exception, it stays \<open>None\<close>.
\<close>

definition load_models :: "sklearn \<Rightarrow> bool \<Rightarrow> shot frame option \<Rightarrow> recommender option" where
  "load_models sk model_loaded historical_df =
     (if \<not> model_loaded then None
      else (case historical_df of
              None \<Rightarrow> None
            | Some df \<Rightarrow>
                if 10 < length (rows df)
                then (case fit sk (min 5 (length (rows df) div 10)) df of
                        Inl e \<Rightarrow> None
                      | Inr r \<Rightarrow> Some r)
                else None))"

text \<open>
  JSON values of a request.  The parser accepts the literals \<open>NaN\<close> and
  \<open>Infinity\<close> (with a sign: \<open>True\<close> is positive) as floats; a JSON number is \<open>PyNum\<close>.
  \<open>isinstance(True, (int, float))\<close> holds in Python, so a boolean counts as 0 or 1.
  A comparison with NaN is false.
\<close>

datatype pyval =
    PyNum real
  | PyNaN
  | PyInfinity bool
  | PyBool bool
  | PyStr string
  | PyNone
  | PyList
  | PyDict

definition is_number :: "pyval \<Rightarrow> bool" where
  "is_number v =
     (case v of PyNum x \<Rightarrow> True | PyNaN \<Rightarrow> True | PyInfinity p \<Rightarrow> True | PyBool b \<Rightarrow> True
              | PyStr s \<Rightarrow> False | PyNone \<Rightarrow> False | PyList \<Rightarrow> False | PyDict \<Rightarrow> False)"

definition less_than_1 :: "pyval \<Rightarrow> bool" where
  "less_than_1 v =
     (case v of PyNum x \<Rightarrow> x < 1 | PyNaN \<Rightarrow> False | PyInfinity p \<Rightarrow> \<not> p | PyBool b \<Rightarrow> \<not> b
              | PyStr s \<Rightarrow> False | PyNone \<Rightarrow> False | PyList \<Rightarrow> False | PyDict \<Rightarrow> False)"

definition greater_than_10 :: "pyval \<Rightarrow> bool" where
  "greater_than_10 v =
     (case v of PyNum x \<Rightarrow> 10 < x | PyNaN \<Rightarrow> False | PyInfinity p \<Rightarrow> p | PyBool b \<Rightarrow> False
              | PyStr s \<Rightarrow> False | PyNone \<Rightarrow> False | PyList \<Rightarrow> False | PyDict \<Rightarrow> False)"

text \<open>
  The test of the handler:
  \<open>not isinstance(value, (int, float)) or value < 1 or value > 10\<close>.
\<close>

definition invalid_taste_value :: "pyval \<Rightarrow> bool" where
  "invalid_taste_value v = (\<not> is_number v \<or> less_than_1 v \<or> greater_than_10 v)"

text \<open>A value that passed the test is a number of [1, 10] or NaN.\<close>

datatype pynum = Finite real | NaN

definition taste_value :: "pyval \<Rightarrow> pynum" where
  "taste_value v =
     (case v of PyNum x \<Rightarrow> Finite x | PyBool b \<Rightarrow> Finite (if b then 1 else 0) | PyNaN \<Rightarrow> NaN
              | PyInfinity p \<Rightarrow> NaN | PyStr s \<Rightarrow> NaN | PyNone \<Rightarrow> NaN | PyList \<Rightarrow> NaN
              | PyDict \<Rightarrow> NaN)"

text \<open>
  A request body that is a JSON object.  \<open>None\<close> in a field stands for a key that is
  absent or \<open>null\<close>; \<open>other_keys\<close> says that the object has some key beyond what the
  three fields hold (another key, or one of the three with \<open>null\<close>).  The object
  \<open>{}\<close> is the one with no field and no other key; Python takes it as false.
  The target profile, when present, is a JSON object.
\<close>

record recommend_request =
  currentParams :: "(string \<times> real) list option"
  targetProfile :: "(string \<times> pyval) list option"
  req_constraints :: "constraints option"
  other_keys :: bool

definition request_empty :: "recommend_request \<Rightarrow> bool" where
  "request_empty req =
     (currentParams req = None \<and> targetProfile req = None \<and> req_constraints req = None \<and>
      \<not> other_keys req)"

datatype error_message =
    RecommenderNotAvailable
  | RequestBodyRequired
  | TargetProfileRequired
  | MissingTasteDimensions "string list"
  | InvalidTasteValue string
  | RecommendationFailed exn

text \<open>
  The loop over \<open>target_profile.items()\<close>: the first entry with an invalid value ends
  the request; otherwise every value has passed the test.
\<close>

fun validate_taste_values :: "(string \<times> pyval) list \<Rightarrow> string + (string \<times> pynum) list" where
  "validate_taste_values [] = Inr []"
| "validate_taste_values ((key, v) # rest) =
     (if invalid_taste_value v then Inl key
      else (case validate_taste_values rest of
              Inl d \<Rightarrow> Inl d
            | Inr ps \<Rightarrow> Inr ((key, taste_value v) # ps)))"

text \<open>
  \<open>recommender.recommend\<close> on a validated profile.  The recommender reads the four
  taste dimensions only.  With a NaN among them the scaled target holds a NaN, and
  scikit-learn, which validates its input, refuses it in \<open>KMeans.predict\<close> with
  \<open>ValueError\<close>.  A NaN under another key is never read.
\<close>

definition finite_entries :: "(string \<times> pynum) list \<Rightarrow> (string \<times> real) list" where
  "finite_entries profile =
     concat (map (\<lambda>(k, v). case v of Finite x \<Rightarrow> [(k, x)] | NaN \<Rightarrow> []) profile)"

definition recommend_validated ::
  "pandas \<Rightarrow> recommender \<Rightarrow> (string \<times> pynum) list \<Rightarrow> constraints option
     \<Rightarrow> (string \<times> real) list option \<Rightarrow> exn + recommendation" where
  "recommend_validated pd r profile cons current_params =
     (if historical_shots r = None then Inl ValueError
      else if \<exists>d\<in>set taste_features. map_of profile d = Some NaN then Inl LibraryError
      else recommend pd r (finite_entries profile) cons current_params)"

text \<open>
  The response body.  Only Python floats are rounded: the aggregated means and the
  clipped values.  A value taken from a mode is passed on as it is.
\<close>

datatype formatted_value = Rounded rounded | Unrounded cell

definition format_value :: "pvalue \<Rightarrow> formatted_value" where
  "format_value v = (case v of PFloat x \<Rightarrow> Rounded (PyRound x 1) | PCell c \<Rightarrow> Unrounded c)"

record recommendations =
  f_primary :: "(string \<times> formatted_value) list"
  f_confidence :: rounded
  f_expectedOutcome :: "rounded \<times> rounded \<times> rounded \<times> rounded \<times> rounded"
  f_distanceFromTarget :: rounded
  f_clusterSize :: nat
  f_qualityShotsCount :: nat
  f_explanation :: "(string \<times> explanation) list"

definition format_recommendation :: "recommendation \<Rightarrow> recommendations" where
  "format_recommendation rec =
     \<lparr>f_primary = map (\<lambda>(k, v). (k, format_value v)) (primary rec),
      f_confidence = PyRound (confidence rec) 2,
      f_expectedOutcome =
        (PyRound (o_sweetness (expectedOutcome rec)) 1,
         PyRound (o_acidity (expectedOutcome rec)) 1,
         PyRound (o_bitterness (expectedOutcome rec)) 1,
         PyRound (o_body (expectedOutcome rec)) 1,
         PyRound (o_shotQuality (expectedOutcome rec)) 1),
      f_distanceFromTarget = PyRound (distanceFromTarget rec) 2,
      f_clusterSize = clusterSize rec,
      f_qualityShotsCount = qualityShotsCount rec,
      f_explanation = explanation rec\<rparr>"

datatype response =
    ErrorResponse error_message nat
  | Recommendations recommendations

text \<open>
  The \<open>/recommend\<close> handler.  The second component of the result counts the calls of
  \<open>recommender.recommend\<close>, the only place where clustering work is done.
\<close>

definition recommend_endpoint ::
  "pandas \<Rightarrow> recommender option \<Rightarrow> recommend_request option \<Rightarrow> response \<times> nat" where
  "recommend_endpoint pd recommender data =
     (case recommender of
        None \<Rightarrow> (ErrorResponse RecommenderNotAvailable 503, 0)
      | Some r \<Rightarrow>
          (case data of
             None \<Rightarrow> (ErrorResponse RequestBodyRequired 400, 0)
           | Some req \<Rightarrow>
               if request_empty req then (ErrorResponse RequestBodyRequired 400, 0)
               else
               (case targetProfile req of
                  None \<Rightarrow> (ErrorResponse TargetProfileRequired 400, 0)
                | Some target_profile \<Rightarrow>
                    if target_profile = [] then (ErrorResponse TargetProfileRequired 400, 0)
                    else
                      (let missing_dims =
                             filter (\<lambda>d. d \<notin> fst ` set target_profile) taste_features
                       in if missing_dims \<noteq> []
                          then (ErrorResponse (MissingTasteDimensions missing_dims) 400, 0)
                          else
                            (case validate_taste_values target_profile of
                               Inl key \<Rightarrow> (ErrorResponse (InvalidTasteValue key) 400, 0)
                             | Inr profile \<Rightarrow>
                                 (case recommend_validated pd r profile (req_constraints req)
                                         (case currentParams req of
                                            None \<Rightarrow> None
                                          | Some cur \<Rightarrow> if cur = [] then None else Some cur) of
                                    Inl e \<Rightarrow> (ErrorResponse (RecommendationFailed e) 500, 1)
                                  | Inr rec \<Rightarrow>
                                      (Recommendations (format_recommendation rec), 1)))))))"


subsection \<open>Library instances and data for evaluation\<close>

text \<open>
  An instance of the data-frame functions: the modes of a column are its most frequent
  values, sorted in ascending order as pandas returns them; the standard deviation is
  the sample standard deviation, NaN for fewer than two values.  Cells of one kind are
  compared by value, texts by the codes of their characters; the order between cells
  of different kinds is fixed arbitrarily (flags, numbers, texts).
\<close>

fun string_le :: "string \<Rightarrow> string \<Rightarrow> bool" where
  "string_le [] ys = True"
| "string_le (x # xs) [] = False"
| "string_le (x # xs) (y # ys) =
     ((of_char x :: nat) < of_char y \<or> (x = y \<and> string_le xs ys))"

fun cell_le :: "cell \<Rightarrow> cell \<Rightarrow> bool" where
  "cell_le (CFlag a) (CFlag b) = (a \<longrightarrow> b)"
| "cell_le (CFlag a) c = True"
| "cell_le (CNum x) (CFlag b) = False"
| "cell_le (CNum x) (CNum y) = (x \<le> y)"
| "cell_le (CNum x) (CText t) = True"
| "cell_le (CText s) (CText t) = string_le s t"
| "cell_le (CText s) c = False"

fun insert_cell :: "cell \<Rightarrow> cell list \<Rightarrow> cell list" where
  "insert_cell c [] = [c]"
| "insert_cell c (d # ds) = (if cell_le c d then c # d # ds else d # insert_cell c ds)"

definition modes :: "cell list \<Rightarrow> cell list" where
  "modes col =
     (let m = fold (\<lambda>v. max (count_list col v)) col 0
      in foldr insert_cell (filter (\<lambda>v. count_list col v = m) (remdups col)) [])"

definition sample_std :: "real list \<Rightarrow> real option" where
  "sample_std xs =
     (if length xs < 2 then None
      else Some (sqrt (sum_list (map (\<lambda>x. (x - mean xs)\<^sup>2) xs) / real (length xs - 1))))"

definition example_pandas :: pandas where
  "example_pandas = \<lparr>series_mode = modes, series_std = sample_std\<rparr>"

text \<open>Nearest centre by squared Euclidean distance, the first one on a tie.\<close>

fun sqdist :: "taste \<Rightarrow> taste \<Rightarrow> real" where
  "sqdist (a, b, c, d) (a', b', c', d') = (a - a')\<^sup>2 + (b - b')\<^sup>2 + (c - c')\<^sup>2 + (d - d')\<^sup>2"

definition nearest :: "taste list \<Rightarrow> taste \<Rightarrow> nat" where
  "nearest cs x =
     (let ds = map (sqdist x) cs
      in length (takeWhile (\<lambda>d. fold min ds (hd ds) < d) ds))"

text \<open>
  Shots with the taste profile (8, 5, 3, 7): quality, cluster, the flag \<open>usedWDT\<close> and
  the text column \<open>roast\<close> vary; \<open>grindSize\<close> is 12 for a shot made with WDT, else 14.
\<close>

definition example_shot :: "real \<Rightarrow> nat \<Rightarrow> bool \<Rightarrow> string \<Rightarrow> clustered_shot" where
  "example_shot q c wdt roast =
     \<lparr>sweetness = 8, acidity = 5, bitterness = 3, body = 7, shotQuality = q,
      cells = (\<lambda>k. if k = ''usedWDT'' then CFlag wdt
                    else if k = ''grindSize'' then CNum (if wdt then 12 else 14)
                    else CText roast),
      cluster = c\<rparr>"

definition example_columns :: "string \<Rightarrow> dtype option" where
  "example_columns k =
     (if k = ''usedWDT'' then Some bool_dtype
      else if k = ''grindSize'' then Some float64
      else if k = ''pressure'' then Some other_dtype
      else None)"

definition example_recommender :: recommender where
  "example_recommender =
     \<lparr>historical_shots =
        Some \<lparr>columns = example_columns,
              rows = [example_shot 5 0 True ''light'', example_shot 7 0 True ''dark'',
                      example_shot 9 0 False ''dark'', example_shot 4 1 False ''light'']\<rparr>,
      transform = (\<lambda>x. taste_minus x (8, 5, 3, 7)),
      predict = nearest [(0, 0, 0, 0), (3, 3, 3, 3)],
      centers = [(0, 0, 0, 0), (3, 3, 3, 3)]\<rparr>"

text \<open>
  A recommender whose cluster 1 holds a single shot and lies nearest to the scaled
  target (0, 0, 0, 0), at distance 2.
\<close>

definition lonely_recommender :: recommender where
  "lonely_recommender =
     \<lparr>historical_shots =
        Some \<lparr>columns = (\<lambda>k. if k = ''grindSize'' then Some float64 else None),
              rows = [example_shot 5 0 True ''light'', example_shot 7 0 True ''dark'',
                      example_shot 9 0 False ''dark'', example_shot 4 1 False ''light'']\<rparr>,
      transform = (\<lambda>x. taste_minus x (8, 5, 3, 7)),
      predict = nearest [(10, 10, 10, 10), (1, 1, 1, 1)],
      centers = [(10, 10, 10, 10), (1, 1, 1, 1)]\<rparr>"

definition example_raw_shot :: shot where
  "example_raw_shot =
     \<lparr>sweetness = 8, acidity = 5, bitterness = 3, body = 7, shotQuality = 7,
      cells = (\<lambda>k. CNum 12)\<rparr>"

text \<open>The same recommender on a frame whose parameter columns are all numeric or boolean.\<close>

definition numeric_columns :: "string \<Rightarrow> dtype option" where
  "numeric_columns k =
     (if k = ''usedWDT'' then Some bool_dtype
      else if k = ''grindSize'' then Some float64
      else None)"

definition numeric_frame :: "clustered_shot frame" where
  "numeric_frame =
     \<lparr>columns = numeric_columns,
      rows = [example_shot 5 0 True ''light'', example_shot 7 0 True ''dark'',
              example_shot 9 0 False ''dark'', example_shot 4 1 False ''light'']\<rparr>"

definition numeric_recommender :: recommender where
  "numeric_recommender = example_recommender\<lparr>historical_shots := Some numeric_frame\<rparr>"

definition two_shots :: "shot frame" where
  "two_shots = \<lparr>columns = (\<lambda>k. None), rows = [example_raw_shot, example_raw_shot]\<rparr>"

text \<open>Every aggregated value is a float: the case of a frame without text columns.\<close>

definition all_float :: "(string \<times> pvalue) list \<Rightarrow> bool" where
  "all_float ps = (\<forall>v\<in>snd ` set ps. \<exists>x. v = PFloat x)"


section \<open>Properties of the dial-in optimizer\<close>

subsection \<open>Studies built by ask/tell are well formed\<close>

lemma wf_study_Nil: "wf_study []"
  by (simp add: wf_study_def)

lemma wf_study_ask: "wf_study s \<Longrightarrow> wf_study (snd (ask s))"
  by (simp add: wf_study_def ask_def)

lemma map_number_suggest: "map number (suggest_float n name v s) = map number s"
  by (induction s) (simp_all add: suggest_float_def)

lemma map_number_attr: "map number (set_user_attr n name v s) = map number s"
  by (induction s) (simp_all add: set_user_attr_def)

lemma wf_study_suggest_float: "wf_study s \<Longrightarrow> wf_study (suggest_float n name v s)"
  unfolding wf_study_def
  by (simp add: map_number_suggest) (auto simp: suggest_float_def list_all_iff)

lemma wf_study_set_user_attr: "wf_study s \<Longrightarrow> wf_study (set_user_attr n name v s)"
  unfolding wf_study_def
  by (simp add: map_number_attr) (auto simp: set_user_attr_def list_all_iff)

lemma wf_study_tell: "wf_study s \<Longrightarrow> tell n v s = Inr s' \<Longrightarrow> wf_study s'"
proof -
  assume wf: "wf_study s" and t: "tell n v s = Inr s'"
  let ?f = "\<lambda>u. if number u = n then u\<lparr>state := COMPLETE, trial_value := Some v\<rparr> else u"
  from t have s': "s' = map ?f s"
    by (auto simp: tell_def split: option.splits if_splits)
  have "number \<circ> ?f = number"
    by (rule ext) simp
  then have nums: "map number s' = map number s"
    unfolding s' map_map by simp
  have len: "length s' = length s"
    unfolding s' by simp
  have "list_all (\<lambda>t. state t = COMPLETE \<longrightarrow> trial_value t \<noteq> None) s'"
    unfolding s' using wf by (auto simp: wf_study_def list_all_iff)
  with nums len wf show ?thesis
    unfolding wf_study_def by simp
qed

lemma wf_study_apply: "wf_study s \<Longrightarrow> wf_study (apply_study_op s x)"
  by (cases x)
     (auto simp: wf_study_ask wf_study_suggest_float wf_study_set_user_attr
           split: sum.splits dest: wf_study_tell)

lemma wf_study_foldl: "wf_study s \<Longrightarrow> wf_study (foldl apply_study_op s ops)"
  by (induction ops arbitrary: s) (simp_all add: wf_study_apply)

lemma wf_study_run_ops: "wf_study (run_ops ops)"
  by (simp add: run_ops_def wf_study_foldl wf_study_Nil)

subsection \<open>The best trial\<close>

lemma pick_best_None:
  "pick_best b ts = None \<longleftrightarrow> b = None \<and> (\<forall>t\<in>set ts. state t \<noteq> COMPLETE)"
  by (induction ts arbitrary: b) (auto split: option.splits)

lemma pick_best_mem:
  "pick_best b ts = Some r \<Longrightarrow> b = Some r \<or> (r \<in> set ts \<and> state r = COMPLETE)"
  by (induction ts arbitrary: b) (auto split: option.splits if_splits)

lemma beats_trans_neg:
  "has_score t \<Longrightarrow> has_score c \<Longrightarrow> has_score r \<Longrightarrow> \<not> beats c r \<Longrightarrow> beats t r \<Longrightarrow> beats t c"
  by (auto simp: beats_def has_score_def split: option.splits)

lemma beats_trans:
  "has_score t \<Longrightarrow> has_score c \<Longrightarrow> has_score r \<Longrightarrow> beats t c \<Longrightarrow> beats c r \<Longrightarrow> beats t r"
  by (auto simp: beats_def has_score_def split: option.splits)

lemma beats_irrefl: "\<not> beats t t"
  by (auto simp: beats_def split: option.splits)

lemma pick_best_opt:
  "pick_best b ts = Some r \<Longrightarrow> \<forall>t\<in>set ts. state t = COMPLETE \<longrightarrow> has_score t \<Longrightarrow>
   \<forall>c. b = Some c \<longrightarrow> has_score c \<Longrightarrow>
   has_score r \<and> (\<forall>c. b = Some c \<longrightarrow> \<not> beats c r) \<and>
   (\<forall>t\<in>set ts. state t = COMPLETE \<longrightarrow> \<not> beats t r)"
proof (induction ts arbitrary: b)
  case Nil
  then show ?case by (simp add: beats_irrefl)
next
  case (Cons t ts)
  show ?case
  proof (cases "state t = COMPLETE")
    case False
    with Cons show ?thesis by simp
  next
    case True
    show ?thesis
    proof (cases b)
      case None
      with True Cons.prems have pb: "pick_best (Some t) ts = Some r" by simp
      from Cons.IH[OF pb] Cons.prems True show ?thesis using None by simp
    next
      case (Some c)
      show ?thesis
      proof (cases "beats t c")
        case bt: True
        with True Some Cons.prems have pb: "pick_best (Some t) ts = Some r" by simp
        from Cons.IH[OF pb] Cons.prems True
        have r: "has_score r" "\<not> beats t r" "\<forall>u\<in>set ts. state u = COMPLETE \<longrightarrow> \<not> beats u r"
          by simp_all
        have "\<not> beats c r"
          using beats_trans[of t c r] bt r Cons.prems True Some by auto
        with r Some show ?thesis by simp
      next
        case bf: False
        with True Some Cons.prems have pb: "pick_best (Some c) ts = Some r" by simp
        from Cons.IH[OF pb] Cons.prems Some
        have r: "has_score r" "\<not> beats c r" "\<forall>u\<in>set ts. state u = COMPLETE \<longrightarrow> \<not> beats u r"
          by simp_all
        have "\<not> beats t r"
          using beats_trans_neg[of t c r] bf r Cons.prems True Some by auto
        with r Some show ?thesis by simp
      qed
    qed
  qed
qed


lemma wf_study_distinct: "wf_study s \<Longrightarrow> distinct (map number s)"
  by (simp add: wf_study_def)

lemma same_number_same_trial:
  "distinct (map number s) \<Longrightarrow> a \<in> set s \<Longrightarrow> b \<in> set s \<Longrightarrow> number a = number b \<Longrightarrow> a = b"
  by (induction s) (auto simp: image_iff)

lemma wf_study_has_score: "wf_study s \<Longrightarrow> t \<in> set s \<Longrightarrow> state t = COMPLETE \<Longrightarrow> has_score t"
  by (auto simp: wf_study_def list_all_iff has_score_def)

lemma not_beats_iff:
  "trial_value b = Some v \<Longrightarrow> trial_value t = Some w \<Longrightarrow>
   \<not> beats t b \<longleftrightarrow> w < v \<or> (w = v \<and> number b \<le> number t)"
  by (auto simp: beats_def)

lemma best_trial_sound:
  assumes wf: "wf_study s" and bt: "best_trial s = Some b"
  shows "b \<in> set s \<and> state b = COMPLETE \<and>
     (\<forall>t\<in>set s. state t = COMPLETE \<longrightarrow>
        (\<exists>v w. trial_value b = Some v \<and> trial_value t = Some w \<and>
               (w < v \<or> (w = v \<and> number b \<le> number t))))"
proof -
  from bt have pb: "pick_best None s = Some b" by (simp add: best_trial_def)
  from pick_best_mem[OF pb] have mem: "b \<in> set s" "state b = COMPLETE" by simp_all
  have sc: "\<forall>t\<in>set s. state t = COMPLETE \<longrightarrow> has_score t"
    using wf wf_study_has_score by blast
  from pick_best_opt[OF pb sc]
  have opt: "\<forall>t\<in>set s. state t = COMPLETE \<longrightarrow> \<not> beats t b" by simp
  from sc mem obtain v where v: "trial_value b = Some v"
    by (auto simp: has_score_def)
  have "\<exists>w. trial_value t = Some w \<and> (w < v \<or> (w = v \<and> number b \<le> number t))"
    if "t \<in> set s" "state t = COMPLETE" for t
  proof -
    from sc that obtain w where w: "trial_value t = Some w"
      by (auto simp: has_score_def)
    from opt that have "\<not> beats t b" by simp
    with not_beats_iff[OF v w] w show ?thesis by simp
  qed
  with mem v show ?thesis by simp
qed

lemma best_trial_unique:
  assumes wf: "wf_study s"
    and b: "b \<in> set s" "state b = COMPLETE"
    and opt: "\<forall>t\<in>set s. state t = COMPLETE \<longrightarrow>
        (\<exists>v w. trial_value b = Some v \<and> trial_value t = Some w \<and>
               (w < v \<or> (w = v \<and> number b \<le> number t)))"
  shows "best_trial s = Some b"
proof -
  have "best_trial s \<noteq> None"
    using b by (auto simp: best_trial_def pick_best_None)
  then obtain r where r: "best_trial s = Some r" by auto
  from best_trial_sound[OF wf r]
  have rm: "r \<in> set s" "state r = COMPLETE"
    and ro: "\<forall>t\<in>set s. state t = COMPLETE \<longrightarrow>
        (\<exists>v w. trial_value r = Some v \<and> trial_value t = Some w \<and>
               (w < v \<or> (w = v \<and> number r \<le> number t)))"
    by simp_all
  from ro b obtain v w where 1: "trial_value r = Some v" "trial_value b = Some w"
      "w < v \<or> (w = v \<and> number r \<le> number b)" by blast
  from opt rm obtain v' w' where 2: "trial_value b = Some v'" "trial_value r = Some w'"
      "w' < v' \<or> (w' = v' \<and> number b \<le> number r)" by blast
  from 1 2 have "number r = number b" by auto
  with same_number_same_trial[OF wf_study_distinct[OF wf] rm(1) b(1)] r show ?thesis by simp
qed

text \<open>
  Claim C1.  After any sequence of ask/tell operations on a fresh study, \<open>best_trial\<close>
  is exactly the COMPLETE trial whose score is maximal among the COMPLETE trials of the
  study, the lowest trial number winning a tie; and there is no best trial exactly when
  the study has no COMPLETE trial.
\<close>

theorem best_trial_run_ops:
  "(best_trial (run_ops ops) = Some b \<longleftrightarrow>
      b \<in> set (run_ops ops) \<and> state b = COMPLETE \<and>
      (\<forall>t\<in>set (run_ops ops). state t = COMPLETE \<longrightarrow>
         (\<exists>v w. trial_value b = Some v \<and> trial_value t = Some w \<and>
                (w < v \<or> (w = v \<and> number b \<le> number t))))) \<and>
   (best_trial (run_ops ops) = None \<longleftrightarrow>
      (\<forall>t\<in>set (run_ops ops). state t \<noteq> COMPLETE))"
proof -
  let ?s = "run_ops ops"
  let ?R = "b \<in> set ?s \<and> state b = COMPLETE \<and>
      (\<forall>t\<in>set ?s. state t = COMPLETE \<longrightarrow>
         (\<exists>v w. trial_value b = Some v \<and> trial_value t = Some w \<and>
                (w < v \<or> (w = v \<and> number b \<le> number t))))"
  have wf: "wf_study ?s" by (rule wf_study_run_ops)
  have 1: "?R" if "best_trial ?s = Some b"
    using best_trial_sound[OF wf that] .
  have 2: "best_trial ?s = Some b" if "?R"
    using best_trial_unique[OF wf, of b] that by blast
  have 3: "best_trial ?s = None \<longleftrightarrow> (\<forall>t\<in>set ?s. state t \<noteq> COMPLETE)"
    by (simp add: best_trial_def pick_best_None)
  from 1 2 have "best_trial ?s = Some b \<longleftrightarrow> ?R" by blast
  with 3 show ?thesis by blast
qed

lemma run_ops_example:
  "run_ops [Ask, Ask, Ask, Tell 1 7, Tell 0 7, Tell 2 5] =
     [\<lparr>number = 0, state = COMPLETE, params = [], user_attrs = [], trial_value = Some 7\<rparr>,
      \<lparr>number = 1, state = COMPLETE, params = [], user_attrs = [], trial_value = Some 7\<rparr>,
      \<lparr>number = 2, state = COMPLETE, params = [], user_attrs = [], trial_value = Some 5\<rparr>]"
  by (simp add: run_ops_def ask_def tell_def)

theorem best_trial_run_ops_witness:
  "best_trial (run_ops [Ask, Ask, Ask, Tell 1 7, Tell 0 7, Tell 2 5]) =
     Some \<lparr>number = 0, state = COMPLETE, params = [], user_attrs = [], trial_value = Some 7\<rparr> \<and>
   best_trial (run_ops [Ask, Ask]) = None"
proof -
  let ?ops = "[Ask, Ask, Ask, Tell 1 7, Tell 0 7, Tell 2 5]"
  let ?b = "\<lparr>number = 0, state = COMPLETE, params = [], user_attrs = [], trial_value = Some (7::real)\<rparr>"
  have "?b \<in> set (run_ops ?ops) \<and> state ?b = COMPLETE \<and>
      (\<forall>t\<in>set (run_ops ?ops). state t = COMPLETE \<longrightarrow>
         (\<exists>v w. trial_value ?b = Some v \<and> trial_value t = Some w \<and>
                (w < v \<or> (w = v \<and> number ?b \<le> number t))))"
    unfolding run_ops_example by simp
  then have 1: "best_trial (run_ops ?ops) = Some ?b"
    using best_trial_run_ops[of ?ops ?b] by blast
  have "\<forall>t\<in>set (run_ops [Ask, Ask]). state t \<noteq> COMPLETE"
    by (simp add: run_ops_def ask_def)
  then have 2: "best_trial (run_ops [Ask, Ask]) = None"
    using best_trial_run_ops[of "[Ask, Ask]" ?b] by blast
  from 1 2 show ?thesis by simp
qed

subsection \<open>Reporting a result twice\<close>

lemma find_by_number:
  "distinct (map number s) \<Longrightarrow> t \<in> set s \<Longrightarrow> int (number t) = n \<Longrightarrow>
   find (\<lambda>u. int (number u) = n) s = Some t"
  by (induction s) (auto simp: image_iff)

text \<open>
  Claim C2.  Reporting a result for a trial that is already COMPLETE answers
  \<open>already_completed\<close> with the trial's existing score, whatever score the request
  carries, and leaves the storage (hence the study and the stored score) as it was.
\<close>

theorem report_result_already_completed:
  assumes "st (get_study_name (rd_bean_id data) (rd_user_id data) (rd_method data)) = Some study"
    and "distinct (map number study)"
    and "t \<in> set study"
    and "int (number t) = rd_trial_number data"
    and "state t = COMPLETE"
  shows "report_result st data =
           (Inr (AlreadyCompleted (rd_trial_number data) (trial_value t)), st)"
  using assms find_by_number[of study t "rd_trial_number data"]
  by (simp add: report_result_def)

theorem report_result_already_completed_witness:
  "report_result
     ((\<lambda>_. None)(''user_u1_bean_b1_espresso'' \<mapsto>
        [\<lparr>number = 0, state = COMPLETE, params = [(''grind'', 12)], user_attrs = [],
          trial_value = Some 8\<rparr>]))
     \<lparr>rd_bean_id = ''b1'', rd_user_id = Some ''u1'', rd_method = ''espresso'',
      rd_trial_number = 0, rd_taste_score = 3\<rparr> =
   (Inr (AlreadyCompleted 0 (Some 8)),
    (\<lambda>_. None)(''user_u1_bean_b1_espresso'' \<mapsto>
        [\<lparr>number = 0, state = COMPLETE, params = [(''grind'', 12)], user_attrs = [],
          trial_value = Some 8\<rparr>]))"
  using report_result_already_completed
    [of "(\<lambda>_. None)(''user_u1_bean_b1_espresso'' \<mapsto>
        [\<lparr>number = 0, state = COMPLETE, params = [(''grind'', 12)], user_attrs = [],
          trial_value = Some 8\<rparr>])"
       "\<lparr>rd_bean_id = ''b1'', rd_user_id = Some ''u1'', rd_method = ''espresso'',
      rd_trial_number = 0, rd_taste_score = 3\<rparr>"
       "[\<lparr>number = 0, state = COMPLETE, params = [(''grind'', 12)], user_attrs = [],
          trial_value = Some 8\<rparr>]"
       "\<lparr>number = 0, state = COMPLETE, params = [(''grind'', 12)], user_attrs = [],
          trial_value = Some 8\<rparr>"]
  by (simp add: get_study_name_def)

subsection \<open>A context without trials\<close>

text \<open>
  Claim C7, as the code has it.  When no study exists for the context, the status is
  \<open>not_started\<close> with zero trials and the best parameters are a 404.  When the study
  exists with an empty trial list, the best parameters are a 404 as well, but the status
  is \<open>active\<close> with zero trials and no best trial.
\<close>

theorem zero_trials_status_and_best:
  "(st (get_study_name bean_id user_id method) = None \<longrightarrow>
      get_optimization_status st bean_id user_id method =
        Inr (NotStarted (get_study_name bean_id user_id method) 0) \<and>
      get_best_parameters st bean_id user_id method =
        Inl (HTTPException 404 NoOptimizationData)) \<and>
   (st (get_study_name bean_id user_id method) = Some [] \<longrightarrow>
      get_optimization_status st bean_id user_id method =
        Inr (Active (get_study_name bean_id user_id method) 0 None []) \<and>
      get_best_parameters st bean_id user_id method =
        Inl (HTTPException 404 NoTrialsCompleted))"
  by (simp add: get_optimization_status_def get_best_parameters_def)

theorem zero_trials_status_and_best_witness:
  "get_optimization_status (\<lambda>_. None) ''b1'' None ''espresso'' =
     Inr (NotStarted ''bean_b1_espresso'' 0) \<and>
   get_best_parameters (\<lambda>_. None) ''b1'' None ''espresso'' =
     Inl (HTTPException 404 NoOptimizationData) \<and>
   get_optimization_status ((\<lambda>_. None)(''bean_b1_espresso'' \<mapsto> [])) ''b1'' None ''espresso'' =
     Inr (Active ''bean_b1_espresso'' 0 None []) \<and>
   get_best_parameters ((\<lambda>_. None)(''bean_b1_espresso'' \<mapsto> [])) ''b1'' None ''espresso'' =
     Inl (HTTPException 404 NoTrialsCompleted)"
  using zero_trials_status_and_best[of "\<lambda>_. None" "''b1''" None "''espresso''"]
    zero_trials_status_and_best[of "(\<lambda>_. None)(''bean_b1_espresso'' \<mapsto> [])" "''b1''" None "''espresso''"]
  by (simp add: get_study_name_def)

text \<open>
  A study that exists and has zero trials is not reported as \<open>not_started\<close>.
\<close>

theorem empty_study_status_counterexample:
  "((\<lambda>_. None)(''bean_b1_espresso'' \<mapsto> [])) (get_study_name ''b1'' None ''espresso'') = Some [] \<and>
   get_optimization_status ((\<lambda>_. None)(''bean_b1_espresso'' \<mapsto> [])) ''b1'' None ''espresso'' =
     Inr (Active ''bean_b1_espresso'' 0 None []) \<and>
   get_optimization_status ((\<lambda>_. None)(''bean_b1_espresso'' \<mapsto> [])) ''b1'' None ''espresso'' \<noteq>
     Inr (NotStarted ''bean_b1_espresso'' 0)"
  by (simp add: get_optimization_status_def get_study_name_def)

section \<open>Properties of the recommendation service\<close>

subsection \<open>Quality filter\<close>



subsection \<open>Aggregation of the parameters\<close>

lemma aggregate_params_keys:
  "aggregate_params pd cols best names = Inr ps \<Longrightarrow>
   fst ` set ps = {n \<in> set names. cols n \<noteq> None}"
proof (induction names arbitrary: ps)
  case Nil
  then show ?case by simp
next
  case (Cons n names)
  show ?case
  proof (cases "cols n")
    case None
    with Cons.prems have "aggregate_params pd cols best names = Inr ps" by simp
    from Cons.IH[OF this] None show ?thesis by auto
  next
    case (Some dt)
    with Cons.prems obtain v rest where
      v: "aggregate_column pd dt (map (\<lambda>s. cells s n) best) = Inr v"
      and rest: "aggregate_params pd cols best names = Inr rest"
      and ps: "ps = (n, v) # rest"
      by (auto split: sum.splits)
    from Cons.IH[OF rest] Some ps show ?thesis by auto
  qed
qed

lemma aggregate_params_lookup:
  "aggregate_params pd cols best names = Inr ps \<Longrightarrow> p \<in> set names \<Longrightarrow> cols p = Some dt \<Longrightarrow>
   \<exists>v. aggregate_column pd dt (map (\<lambda>s. cells s p) best) = Inr v \<and> map_of ps p = Some v"
proof (induction names arbitrary: ps)
  case Nil
  then show ?case by simp
next
  case (Cons n names)
  show ?case
  proof (cases "cols n")
    case None
    with Cons.prems have ag: "aggregate_params pd cols best names = Inr ps" by simp
    from None Cons.prems have "p \<noteq> n" by auto
    with Cons.prems have "p \<in> set names" by simp
    from Cons.IH[OF ag this Cons.prems(3)] show ?thesis .
  next
    case (Some dn)
    with Cons.prems obtain v rest where
      v: "aggregate_column pd dn (map (\<lambda>s. cells s n) best) = Inr v"
      and rest: "aggregate_params pd cols best names = Inr rest"
      and ps: "ps = (n, v) # rest"
      by (auto split: sum.splits)
    show ?thesis
    proof (cases "p = n")
      case True
      with Some Cons.prems(3) v ps show ?thesis by simp
    next
      case False
      with Cons.prems have "p \<in> set names" by simp
      from Cons.IH[OF rest this Cons.prems(3)] False ps show ?thesis by simp
    qed
  qed
qed

lemma sum_flags:
  "\<forall>c\<in>set col. \<exists>b. c = CFlag b \<Longrightarrow>
   sum_list (map as_float col) = real (length (filter (\<lambda>c. c = CFlag True) col))"
  by (induction col) (auto simp: as_float_def split: if_splits)

text \<open>
  Claim C4, as the code has it.  In the dictionary of aggregated parameters, a parameter
  whose column is absent has no entry; a column of dtype \<open>float64\<close> or \<open>int64\<close>
  yields the arithmetic mean over the (non-empty) quality shots; a column of dtype \<open>bool\<close> yields
  the arithmetic mean too, that is the share of the shots whose flag is set; a column
  of any other dtype yields the first entry of the mode list of the column.
\<close>

theorem aggregation_by_dtype:
  assumes "aggregate_params pd cols best parameter_features = Inr ps"
    and "param \<in> set parameter_features"
    and "best \<noteq> []"
  shows "(cols param = None \<longrightarrow> map_of ps param = None) \<and>
    (cols param = Some float64 \<or> cols param = Some int64 \<longrightarrow>
       map_of ps param =
         Some (PFloat (sum_list (map (\<lambda>s. as_float (cells s param)) best) / real (length best)))) \<and>
    (cols param = Some bool_dtype \<and> (\<forall>s\<in>set best. \<exists>b. cells s param = CFlag b) \<longrightarrow>
       map_of ps param =
         Some (PFloat (real (length (filter (\<lambda>s. cells s param = CFlag True) best)) /
                       real (length best)))) \<and>
    (cols param = Some other_dtype \<longrightarrow>
       series_mode pd (map (\<lambda>s. cells s param) best) \<noteq> [] \<and>
       map_of ps param = Some (PCell (hd (series_mode pd (map (\<lambda>s. cells s param) best)))))"
proof (intro conjI impI)
  assume "cols param = None"
  with aggregate_params_keys[OF assms(1)] have "param \<notin> fst ` set ps" by auto
  then show "map_of ps param = None" by (simp add: map_of_eq_None_iff)
next
  assume "cols param = Some float64 \<or> cols param = Some int64"
  then obtain dt where dt: "cols param = Some dt" "dt = float64 \<or> dt = int64" by auto
  from aggregate_params_lookup[OF assms(1,2) dt(1)] dt(2)
  show "map_of ps param =
         Some (PFloat (sum_list (map (\<lambda>s. as_float (cells s param)) best) / real (length best)))"
    by (auto simp: aggregate_column_def mean_def o_def)
next
  assume a: "cols param = Some bool_dtype \<and> (\<forall>s\<in>set best. \<exists>b. cells s param = CFlag b)"
  then have "\<forall>c\<in>set (map (\<lambda>s. cells s param) best). \<exists>b. c = CFlag b" by auto
  from sum_flags[OF this]
  have "sum_list (map as_float (map (\<lambda>s. cells s param) best)) =
          real (length (filter (\<lambda>s. cells s param = CFlag True) best))"
    by (simp add: filter_map o_def)
  moreover from a aggregate_params_lookup[OF assms(1,2), of bool_dtype]
  have "map_of ps param = Some (PFloat (mean (map as_float (map (\<lambda>s. cells s param) best))))"
    by (auto simp: aggregate_column_def)
  ultimately show "map_of ps param =
         Some (PFloat (real (length (filter (\<lambda>s. cells s param = CFlag True) best)) /
                       real (length best)))"
    by (simp add: mean_def)
next
  assume a: "cols param = Some other_dtype"
  from aggregate_params_lookup[OF assms(1,2) a]
  show "series_mode pd (map (\<lambda>s. cells s param) best) \<noteq> []"
    by (auto simp: aggregate_column_def split: list.splits)
next
  assume a: "cols param = Some other_dtype"
  from aggregate_params_lookup[OF assms(1,2) a]
  show "map_of ps param = Some (PCell (hd (series_mode pd (map (\<lambda>s. cells s param) best))))"
    by (auto simp: aggregate_column_def split: list.splits)
qed

lemma example_modes_flag:
  "modes [CFlag True, CFlag True, CFlag False] = [CFlag True]"
  by (simp add: modes_def)

lemma example_modes_tie:
  "modes [CText ''light'', CText ''dark''] = [CText ''dark'', CText ''light'']"
  by (simp add: modes_def)

lemma example_modes_text:
  "modes [CText ''dark'', CText ''dark'', CText ''light''] = [CText ''dark'']"
  by (simp add: modes_def)

lemma example_aggregate:
  "aggregate_params example_pandas example_columns
     [example_shot 7 0 True ''dark'', example_shot 9 0 True ''dark'', example_shot 8 0 False ''light'']
     parameter_features =
   Inr [(''grindSize'', PFloat (38 / 3)), (''pressure'', PCell (CText ''dark'')),
        (''usedWDT'', PFloat (2 / 3))]"
  by (simp add: parameter_features_def example_columns_def example_shot_def
        aggregate_column_def example_pandas_def mean_def as_float_def example_modes_text)

text \<open>
  A boolean column with the values True, True, False is aggregated to 2/3, not to its
  most frequent value True.
\<close>

theorem boolean_mean_counterexample:
  "aggregate_column example_pandas bool_dtype [CFlag True, CFlag True, CFlag False] =
     Inr (PFloat (2 / 3)) \<and>
   series_mode example_pandas [CFlag True, CFlag True, CFlag False] = [CFlag True] \<and>
   aggregate_column example_pandas bool_dtype [CFlag True, CFlag True, CFlag False] \<noteq>
     Inr (PCell (CFlag True))"
  by (simp add: aggregate_column_def example_pandas_def mean_def as_float_def example_modes_flag)

theorem aggregation_by_dtype_witness:
  "map_of [(''grindSize'', PFloat (38 / 3)), (''pressure'', PCell (CText ''dark'')),
           (''usedWDT'', PFloat (2 / 3))] ''temperature'' = None \<and>
   map_of [(''grindSize'', PFloat (38 / 3)), (''pressure'', PCell (CText ''dark'')),
           (''usedWDT'', PFloat (2 / 3))] ''grindSize'' = Some (PFloat ((12 + 12 + 14) / 3)) \<and>
   map_of [(''grindSize'', PFloat (38 / 3)), (''pressure'', PCell (CText ''dark'')),
           (''usedWDT'', PFloat (2 / 3))] ''usedWDT'' = Some (PFloat (real 2 / real 3)) \<and>
   map_of [(''grindSize'', PFloat (38 / 3)), (''pressure'', PCell (CText ''dark'')),
           (''usedWDT'', PFloat (2 / 3))] ''pressure'' =
     Some (PCell (hd (modes [CText ''dark'', CText ''dark'', CText ''light''])))"
proof -
  let ?best = "[example_shot 7 0 True ''dark'', example_shot 9 0 True ''dark'',
                example_shot 8 0 False ''light'']"
  have ne: "?best \<noteq> []" by simp
  note ag = aggregation_by_dtype[OF example_aggregate _ ne]
  have 1: "''temperature'' \<in> set parameter_features" "''grindSize'' \<in> set parameter_features"
    "''usedWDT'' \<in> set parameter_features" "''pressure'' \<in> set parameter_features"
    by (simp_all add: parameter_features_def)
  from ag[OF 1(1)] ag[OF 1(2)] ag[OF 1(3)] ag[OF 1(4)]
  show ?thesis
    by (simp add: example_columns_def example_shot_def as_float_def example_pandas_def)
qed

subsection \<open>Confidence\<close>

lemma recommend_Inr_confidence:
  assumes "recommend pd r tp cons cur = Inr rec"
    and "historical_shots r = Some hist"
  shows "calculate_confidence pd r
           (select_quality_shots
              (filter (\<lambda>s. cluster s = predict r (transform r (target_array tp))) (rows hist)))
           (filter (\<lambda>s. cluster s = predict r (transform r (target_array tp))) (rows hist))
           (transform r (target_array tp)) = Inr (confidence rec)"
  using assms
  by (auto simp: recommend_def Let_def split: sum.splits option.splits)

lemma calculate_confidence_Inr:
  assumes "calculate_confidence pd r best cs ts = Inr c"
  shows "cs \<noteq> [] \<and> cluster (hd cs) < length (centers r) \<and>
     c = py_max_0 (py_min_1
           (map_option
              (\<lambda>sd. 0.4 * (real (length best) / real (length cs)) + 0.3 * (1 - sd / 10) +
                     0.3 * py_max_0 (1 - euclid ts (centers r ! cluster (hd cs)) / 2))
              (series_std pd (map shotQuality cs))))"
proof (cases cs)
  case Nil
  with assms show ?thesis by (simp add: calculate_confidence_def)
next
  case (Cons s rest)
  with assms show ?thesis
    by (auto simp: calculate_confidence_def Let_def option.map_comp o_def split: if_splits)
qed

lemma py_min_1_Some: "py_min_1 (Some x) = min 1 x"
  by (simp add: py_min_1_def min_def)

lemma py_max_0_max: "py_max_0 x = max 0 x"
  by (simp add: py_max_0_def max_def)

lemma hd_filter_cluster:
  "filter (\<lambda>s. cluster s = cid) xs \<noteq> [] \<Longrightarrow> cluster (hd (filter (\<lambda>s. cluster s = cid) xs)) = cid"
proof -
  assume a: "filter (\<lambda>s. cluster s = cid) xs \<noteq> []"
  then have "hd (filter (\<lambda>s. cluster s = cid) xs) \<in> set (filter (\<lambda>s. cluster s = cid) xs)"
    by (rule hd_in_set)
  then show ?thesis by simp
qed

text \<open>
  Where the standard deviation of the cluster's shot qualities is a number, the
  confidence of a returned recommendation is
  0.4 (|quality shots| / |cluster shots|) + 0.3 (1 - std / 10) + 0.3 max(0, 1 - d / 2)
  clamped to [0, 1], with d the distance of the scaled target from the centre of its
  cluster.
\<close>

lemma confidence_formula:
  assumes "recommend pd r tp cons cur = Inr rec"
    and "historical_shots r = Some hist"
    and "target_scaled = transform r (target_array tp)"
    and "cluster_shots = filter (\<lambda>s. cluster s = predict r target_scaled) (rows hist)"
    and "quality_shots = select_quality_shots cluster_shots"
    and "series_std pd (map shotQuality cluster_shots) = Some sd"
  shows "confidence rec =
     max 0 (min 1
       (0.4 * (real (length quality_shots) / real (length cluster_shots)) +
        0.3 * (1 - sd / 10) +
        0.3 * max 0 (1 - euclid target_scaled (centers r ! predict r target_scaled) / 2)))"
proof -
  have cc: "calculate_confidence pd r quality_shots cluster_shots target_scaled = Inr (confidence rec)"
    using recommend_Inr_confidence[OF assms(1,2)] assms(3,4,5) by simp
  from calculate_confidence_Inr[OF cc]
  have ne: "cluster_shots \<noteq> []"
    and c: "confidence rec = py_max_0 (py_min_1
           (map_option
              (\<lambda>sd. 0.4 * (real (length quality_shots) / real (length cluster_shots)) +
                     0.3 * (1 - sd / 10) +
                     0.3 * py_max_0 (1 - euclid target_scaled
                                          (centers r ! cluster (hd cluster_shots)) / 2))
              (series_std pd (map shotQuality cluster_shots))))"
    by simp_all
  have "cluster (hd cluster_shots) = predict r target_scaled"
    using ne hd_filter_cluster unfolding assms(4) by blast
  with c assms(6) show ?thesis
    by (simp only: option.map py_min_1_Some py_max_0_max)
qed

lemma example_std: "sample_std [5, 7, 9] = Some 2"
  by (simp add: sample_std_def mean_def power2_eq_square)

lemma example_nearest: "nearest [(0, 0, 0, 0), (3, 3, 3, 3)] (0, 0, 0, 0) = 0"
  by (simp add: nearest_def)

lemma example_modes_dark: "modes [CText ''dark'', CText ''dark''] = [CText ''dark'']"
  by (simp add: modes_def)

lemma example_cluster:
  "filter (\<lambda>s. cluster s = 0) (rows (the (historical_shots example_recommender))) =
     [example_shot 5 0 True ''light'', example_shot 7 0 True ''dark'', example_shot 9 0 False ''dark'']"
  by (simp add: example_recommender_def example_shot_def)

lemma example_quality:
  "select_quality_shots
     [example_shot 5 0 True ''light'', example_shot 7 0 True ''dark'', example_shot 9 0 False ''dark''] =
     [example_shot 7 0 True ''dark'', example_shot 9 0 False ''dark'']"
  by (simp add: select_quality_shots_def example_shot_def)

lemma example_recommend:
  "recommend example_pandas example_recommender
     [(''sweetness'', 8), (''acidity'', 5), (''bitterness'', 3), (''body'', 7)] None None =
   Inr \<lparr>primary = [(''grindSize'', PFloat 13), (''pressure'', PCell (CText ''dark'')),
                   (''usedWDT'', PFloat (1 / 2))],
        confidence = 121 / 150,
        expectedOutcome = \<lparr>o_sweetness = 8, o_acidity = 5, o_bitterness = 3, o_body = 7,
                           o_shotQuality = 8\<rparr>,
        distanceFromTarget = 0,
        clusterSize = 3,
        qualityShotsCount = 2,
        explanation = []\<rparr>"
proof -
  have h: "historical_shots example_recommender =
             Some (the (historical_shots example_recommender))"
    by (simp add: example_recommender_def)
  have ta: "target_array [(''sweetness'', 8), (''acidity'', 5), (''bitterness'', 3), (''body'', 7)]
              = (8, 5, 3, 7)"
    by (simp add: target_array_def dict_get_def)
  have tr: "transform example_recommender (8, 5, 3, 7) = (0, 0, 0, 0)"
    by (simp add: example_recommender_def)
  have pr: "predict example_recommender (0, 0, 0, 0) = 0"
    by (simp add: example_recommender_def example_nearest)
  have cols: "columns (the (historical_shots example_recommender)) = example_columns"
    by (simp add: example_recommender_def)
  have ag: "aggregate_params example_pandas example_columns
              [example_shot 7 0 True ''dark'', example_shot 9 0 False ''dark''] parameter_features =
            Inr [(''grindSize'', PFloat 13), (''pressure'', PCell (CText ''dark'')),
                 (''usedWDT'', PFloat (1 / 2))]"
    by (simp add: parameter_features_def example_columns_def example_shot_def
          aggregate_column_def example_pandas_def mean_def as_float_def example_modes_dark)
  have sd: "series_std example_pandas
              (map shotQuality [example_shot 5 0 True ''light'', example_shot 7 0 True ''dark'',
                                example_shot 9 0 False ''dark'']) = Some 2"
    using example_std by (simp add: example_pandas_def example_shot_def)
  have cf: "calculate_confidence example_pandas example_recommender
              [example_shot 7 0 True ''dark'', example_shot 9 0 False ''dark'']
              [example_shot 5 0 True ''light'', example_shot 7 0 True ''dark'',
               example_shot 9 0 False ''dark''] (0, 0, 0, 0) = Inr (121 / 150)"
    unfolding calculate_confidence_def sd
    by (simp add: example_recommender_def example_shot_def py_max_0_def py_min_1_def)
  show ?thesis
    unfolding recommend_def
    apply (subst h)
    apply (simp only: option.case Let_def ta tr pr example_cluster example_quality cols ag cf sum.case)
    apply (simp add: example_shot_def mean_def calculate_taste_distance_def ta
             generate_explanation_def)
    done
qed

lemma confidence_formula_example:
  "recommend example_pandas example_recommender
     [(''sweetness'', 8), (''acidity'', 5), (''bitterness'', 3), (''body'', 7)] None None =
   Inr \<lparr>primary = [(''grindSize'', PFloat 13), (''pressure'', PCell (CText ''dark'')),
                   (''usedWDT'', PFloat (1 / 2))],
        confidence = 121 / 150,
        expectedOutcome = \<lparr>o_sweetness = 8, o_acidity = 5, o_bitterness = 3, o_body = 7,
                           o_shotQuality = 8\<rparr>,
        distanceFromTarget = 0,
        clusterSize = 3,
        qualityShotsCount = 2,
        explanation = []\<rparr> \<and>
   series_std example_pandas [5, 7, 9] = Some 2 \<and>
   (121 / 150 :: real) =
     max 0 (min 1 (0.4 * (2 / 3) + 0.3 * (1 - 2 / 10) + 0.3 * max 0 (1 - 0 / 2)))"
proof -
  let ?tp = "[(''sweetness'', 8), (''acidity'', 5), (''bitterness'', 3), (''body'', 7 :: real)]"
  let ?hist = "the (historical_shots example_recommender)"
  let ?cs = "[example_shot 5 0 True ''light'', example_shot 7 0 True ''dark'',
              example_shot 9 0 False ''dark'']"
  have h: "historical_shots example_recommender = Some ?hist"
    by (simp add: example_recommender_def)
  have ts: "(0, 0, 0, 0) = transform example_recommender (target_array ?tp)"
    by (simp add: target_array_def dict_get_def example_recommender_def)
  have cs: "?cs = filter (\<lambda>s. cluster s = predict example_recommender (0, 0, 0, 0)) (rows ?hist)"
    using example_cluster by (simp add: example_recommender_def example_nearest)
  have qs: "[example_shot 7 0 True ''dark'', example_shot 9 0 False ''dark''] =
              select_quality_shots ?cs"
    by (simp add: example_quality)
  have sd: "series_std example_pandas (map shotQuality ?cs) = Some 2"
    using example_std by (simp add: example_pandas_def example_shot_def)
  have sd': "series_std example_pandas [5, 7, 9] = Some 2"
    using example_std by (simp add: example_pandas_def)
  from confidence_formula[OF example_recommend h ts cs qs sd]
  have "(121 / 150 :: real) =
     max 0 (min 1 (0.4 * (2 / 3) + 0.3 * (1 - 2 / 10) + 0.3 * max 0 (1 - 0 / 2)))"
    by (simp add: example_recommender_def example_nearest)
  with example_recommend sd' show ?thesis by blast
qed

text \<open>
  When the standard deviation is NaN, \<open>min(1.0, nan)\<close> is 1.0 in Python: the confidence
  is 1.
\<close>

lemma confidence_single_shot:
  assumes "recommend pd r tp cons cur = Inr rec"
    and "historical_shots r = Some hist"
    and "series_std pd (map shotQuality
           (filter (\<lambda>s. cluster s = predict r (transform r (target_array tp))) (rows hist))) = None"
  shows "confidence rec = 1"
  using calculate_confidence_Inr[OF recommend_Inr_confidence[OF assms(1,2)]] assms(3)
  by (simp add: py_max_0_def py_min_1_def)

lemma lonely_nearest: "nearest [(10, 10, 10, 10), (1, 1, 1, 1)] (0, 0, 0, 0) = 1"
  by (simp add: nearest_def)

lemma lonely_cluster:
  "filter (\<lambda>s. cluster s = 1) (rows (the (historical_shots lonely_recommender))) =
     [example_shot 4 1 False ''light'']"
  by (simp add: lonely_recommender_def example_shot_def)

lemma lonely_quality:
  "select_quality_shots [example_shot 4 1 False ''light''] = [example_shot 4 1 False ''light'']"
  by (simp add: select_quality_shots_def example_shot_def)

lemma lonely_std: "series_std example_pandas [4] = None"
  by (simp add: example_pandas_def sample_std_def)

text \<open>
  Claim C5, where the code departs from it.  The cluster assigned to the target
  (8, 5, 3, 7) holds a single shot, and the scaled target is at distance 2 from its
  centre.  The standard deviation of one quality is NaN, the weighted sum is NaN, and
  \<open>max(0.0, min(1.0, nan))\<close> is 1.0: the confidence returned is 1.  The formula of the
  claim gives 0.7 even with a standard deviation of 0, and less with any other.
\<close>

theorem confidence_single_shot_example:
  "recommend example_pandas lonely_recommender
     [(''sweetness'', 8), (''acidity'', 5), (''bitterness'', 3), (''body'', 7)] None None =
   Inr \<lparr>primary = [(''grindSize'', PFloat 14)],
        confidence = 1,
        expectedOutcome = \<lparr>o_sweetness = 8, o_acidity = 5, o_bitterness = 3, o_body = 7,
                           o_shotQuality = 4\<rparr>,
        distanceFromTarget = 0,
        clusterSize = 1,
        qualityShotsCount = 1,
        explanation = []\<rparr> \<and>
   series_std example_pandas [4] = None \<and>
   euclid (0, 0, 0, 0) (1, 1, 1, 1) = 2 \<and>
   max 0 (min 1 (0.4 * (1 / 1) + 0.3 * (1 - 0 / 10) + 0.3 * max 0 (1 - 2 / 2))) = (7 / 10 :: real)"
proof -
  have h: "historical_shots lonely_recommender =
             Some (the (historical_shots lonely_recommender))"
    by (simp add: lonely_recommender_def)
  have ta: "target_array [(''sweetness'', 8), (''acidity'', 5), (''bitterness'', 3), (''body'', 7)]
              = (8, 5, 3, 7)"
    by (simp add: target_array_def dict_get_def)
  have tr: "transform lonely_recommender (8, 5, 3, 7) = (0, 0, 0, 0)"
    by (simp add: lonely_recommender_def)
  have pr: "predict lonely_recommender (0, 0, 0, 0) = 1"
    by (simp add: lonely_recommender_def lonely_nearest)
  have ag: "aggregate_params example_pandas
              (columns (the (historical_shots lonely_recommender)))
              [example_shot 4 1 False ''light''] parameter_features =
            Inr [(''grindSize'', PFloat 14)]"
    by (simp add: parameter_features_def lonely_recommender_def example_shot_def
          aggregate_column_def mean_def as_float_def)
  have sd: "series_std example_pandas (map shotQuality [example_shot 4 1 False ''light'']) = None"
    using lonely_std by (simp add: example_shot_def)
  have cf: "calculate_confidence example_pandas lonely_recommender
              [example_shot 4 1 False ''light''] [example_shot 4 1 False ''light'']
              (0, 0, 0, 0) = Inr 1"
    unfolding calculate_confidence_def sd
    by (simp add: lonely_recommender_def example_shot_def py_max_0_def py_min_1_def)
  have 1: "recommend example_pandas lonely_recommender
     [(''sweetness'', 8), (''acidity'', 5), (''bitterness'', 3), (''body'', 7)] None None =
   Inr \<lparr>primary = [(''grindSize'', PFloat 14)],
        confidence = 1,
        expectedOutcome = \<lparr>o_sweetness = 8, o_acidity = 5, o_bitterness = 3, o_body = 7,
                           o_shotQuality = 4\<rparr>,
        distanceFromTarget = 0,
        clusterSize = 1,
        qualityShotsCount = 1,
        explanation = []\<rparr>"
    unfolding recommend_def
    apply (subst h)
    apply (simp only: option.case Let_def ta tr pr lonely_cluster lonely_quality ag cf sum.case)
    apply (simp add: example_shot_def mean_def calculate_taste_distance_def ta
             generate_explanation_def)
    done
  have 3: "euclid (0, 0, 0, 0) (1, 1, 1, 1) = 2" by simp
  have 4: "max 0 (min 1 (0.4 * (1 / 1) + 0.3 * (1 - 0 / 10) + 0.3 * max 0 (1 - 2 / 2))) =
             (7 / 10 :: real)"
    by simp
  from 1 lonely_std 3 4 show ?thesis by blast
qed

subsection \<open>Validation in the recommend handler\<close>
















subsection \<open>Defaults for absent taste dimensions\<close>

lemma map_of_default_entries:
  "map_of (map (\<lambda>d. (d, 5 :: real)) xs) k = (if k \<in> set xs then Some 5 else None)"
  by (induction xs) auto

lemma map_of_with_defaults:
  "map_of (with_defaults tp) k =
     (case map_of tp k of
        Some v \<Rightarrow> Some v
      | None \<Rightarrow> if k \<in> set taste_features then Some 5 else None)"
proof (cases "map_of tp k")
  case None
  then have "k \<notin> fst ` set tp" by (simp add: map_of_eq_None_iff)
  with None show ?thesis
    by (simp add: with_defaults_def map_add_def map_of_default_entries)
next
  case (Some v)
  then show ?thesis
    by (simp add: with_defaults_def map_add_def)
qed

lemma dict_get_with_defaults: "dict_get (with_defaults tp) k 5 = dict_get tp k 5"
  by (simp add: dict_get_def map_of_with_defaults split: option.splits)

lemma target_array_with_defaults: "target_array (with_defaults tp) = target_array tp"
  by (simp add: target_array_def dict_get_with_defaults)

lemma taste_distance_with_defaults:
  "calculate_taste_distance out (with_defaults tp) = calculate_taste_distance out tp"
  by (simp add: calculate_taste_distance_def target_array_with_defaults)

lemma recommend_with_defaults:
  "recommend pd r (with_defaults tp) cons cur = recommend pd r tp cons cur"
  unfolding recommend_def target_array_with_defaults taste_distance_with_defaults
  by (rule refl)

lemma aggregate_column_float:
  "dt \<noteq> other_dtype \<Longrightarrow> \<exists>x. aggregate_column pd dt col = Inr (PFloat x)"
  by (cases dt) (simp_all add: aggregate_column_def)

lemma aggregate_params_float:
  "\<forall>p\<in>set names. cols p \<noteq> Some other_dtype \<Longrightarrow>
   \<exists>ps. aggregate_params pd cols best names = Inr ps \<and> all_float ps"
proof (induction names)
  case Nil
  then show ?case by (simp add: all_float_def)
next
  case (Cons n names)
  then obtain ps where ps: "aggregate_params pd cols best names = Inr ps" "all_float ps"
    by auto
  show ?case
  proof (cases "cols n")
    case None
    with ps show ?thesis by simp
  next
    case (Some dt)
    with Cons.prems have "dt \<noteq> other_dtype" by auto
    from aggregate_column_float[OF this]
    obtain x where "aggregate_column pd dt (map (\<lambda>s. cells s n) best) = Inr (PFloat x)"
      by blast
    with Some ps show ?thesis by (simp add: all_float_def)
  qed
qed

lemma all_float_lookup: "all_float ps \<Longrightarrow> map_of ps k = Some v \<Longrightarrow> \<exists>x. pvalue_num v = Some x"
proof -
  assume a: "all_float ps" and m: "map_of ps k = Some v"
  from m have "(k, v) \<in> set ps" by (rule map_of_SomeD)
  then have "v \<in> snd ` set ps" by force
  with a obtain x where "v = PFloat x" by (auto simp: all_float_def)
  then show ?thesis by (simp add: pvalue_num_def)
qed

lemma all_float_update:
  "all_float ps \<Longrightarrow> all_float (map (\<lambda>(k, w). if k = p then (k, PFloat y) else (k, w)) ps)"
  by (auto simp: all_float_def split: if_splits)

lemma apply_ranges_float:
  "all_float ps \<Longrightarrow> \<exists>ps'. apply_ranges ps rs = Inr ps' \<and> all_float ps'"
proof (induction ps rs rule: apply_ranges.induct)
  case (1 ps)
  then show ?case by simp
next
  case (2 ps param min_val max_val rs)
  show ?case
  proof (cases "map_of ps param")
    case None
    with 2 show ?thesis by simp
  next
    case (Some v)
    from all_float_lookup[OF "2.prems" Some] obtain x where x: "pvalue_num v = Some x" by blast
    have "all_float (map (\<lambda>(k, w). if k = param then (k, PFloat (clip x min_val max_val))
                                     else (k, w)) ps)"
      using "2.prems" by (rule all_float_update)
    from "2.IH"(2)[OF Some x this] Some x show ?thesis by simp
  qed
qed

lemma apply_constraints_float:
  "all_float ps \<Longrightarrow> \<exists>ps'. apply_constraints ps cons = Inr ps' \<and> all_float ps'"
  by (cases "paramRanges cons") (simp_all add: apply_constraints_def apply_ranges_float)

lemma explain_change_float:
  "all_float ps \<Longrightarrow> \<exists>e. explain_change ps cur key th up down = Inr e"
proof (cases "map_of ps key")
  case None
  then show ?thesis by (simp add: explain_change_def)
next
  case (Some v)
  assume "all_float ps"
  from all_float_lookup[OF this Some] obtain x where "pvalue_num v = Some x" by blast
  with Some show ?thesis
    by (simp add: explain_change_def Let_def split: option.splits)
qed

lemma generate_explanation_float:
  assumes "all_float ps"
  shows "\<exists>e. generate_explanation ps cur = Inr e"
proof -
  from explain_change_float[OF assms] have
    "\<And>c key th up down. \<exists>e. explain_change ps c key th up down = Inr e" by blast
  then show ?thesis
    unfolding generate_explanation_def
    by (auto split: option.splits sum.splits) (metis Inl_Inr_False)+
qed

lemma calculate_confidence_ok:
  "cs \<noteq> [] \<Longrightarrow> cluster (hd cs) < length (centers r) \<Longrightarrow>
   \<exists>c. calculate_confidence pd r best cs ts = Inr c"
  by (cases cs) (simp_all add: calculate_confidence_def Let_def)

lemma recommend_succeeds:
  assumes h: "historical_shots r = Some hist"
    and ne: "filter (\<lambda>s. cluster s = predict r (transform r (target_array tp))) (rows hist) \<noteq> []"
    and ce: "predict r (transform r (target_array tp)) < length (centers r)"
    and nf: "\<forall>p\<in>set parameter_features. columns hist p \<noteq> Some other_dtype"
  shows "\<exists>rec. recommend pd r tp cons cur = Inr rec"
proof -
  let ?ts = "transform r (target_array tp)"
  let ?cs = "filter (\<lambda>s. cluster s = predict r ?ts) (rows hist)"
  let ?best = "select_quality_shots ?cs"
  from aggregate_params_float[OF nf] obtain ps where
    ps: "aggregate_params pd (columns hist) ?best parameter_features = Inr ps" "all_float ps"
    by blast
  have "\<exists>ps'. (case cons of None \<Rightarrow> Inr ps | Some c \<Rightarrow> apply_constraints ps c) = Inr ps' \<and>
              all_float ps'"
    using ps(2) apply_constraints_float by (cases cons) simp_all
  then obtain ps' where
    ps': "(case cons of None \<Rightarrow> Inr ps | Some c \<Rightarrow> apply_constraints ps c) = Inr ps'"
    "all_float ps'" by blast
  have "cluster (hd ?cs) < length (centers r)"
    using hd_filter_cluster[OF ne] ce by simp
  from calculate_confidence_ok[OF ne this] obtain c where
    c: "calculate_confidence pd r ?best ?cs ?ts = Inr c" by blast
  from generate_explanation_float[OF ps'(2)] obtain e where
    e: "generate_explanation ps' cur = Inr e" by blast
  show ?thesis
    unfolding recommend_def
    by (simp add: h Let_def ps(1) ps'(1) c e)
qed


lemma recommend_Inr_fields:
  assumes "recommend pd r tp cons cur = Inr rec"
    and "historical_shots r = Some hist"
  shows "clusterSize rec =
           length (filter (\<lambda>s. cluster s = predict r (transform r (target_array tp))) (rows hist)) \<and>
         qualityShotsCount rec =
           length (select_quality_shots
             (filter (\<lambda>s. cluster s = predict r (transform r (target_array tp))) (rows hist))) \<and>
         distanceFromTarget rec =
           euclid
             (mean (map sweetness (select_quality_shots
                (filter (\<lambda>s. cluster s = predict r (transform r (target_array tp))) (rows hist)))),
              mean (map acidity (select_quality_shots
                (filter (\<lambda>s. cluster s = predict r (transform r (target_array tp))) (rows hist)))),
              mean (map bitterness (select_quality_shots
                (filter (\<lambda>s. cluster s = predict r (transform r (target_array tp))) (rows hist)))),
              mean (map body (select_quality_shots
                (filter (\<lambda>s. cluster s = predict r (transform r (target_array tp))) (rows hist)))))
             (target_array tp)"
  using assms
  by (auto simp: recommend_def Let_def calculate_taste_distance_def
           split: sum.splits option.splits)

lemma target_array_cases:
  "target_array tp =
     (case map_of tp ''sweetness'' of None \<Rightarrow> 5 | Some x \<Rightarrow> x,
      case map_of tp ''acidity'' of None \<Rightarrow> 5 | Some x \<Rightarrow> x,
      case map_of tp ''bitterness'' of None \<Rightarrow> 5 | Some x \<Rightarrow> x,
      case map_of tp ''body'' of None \<Rightarrow> 5 | Some x \<Rightarrow> x)"
  by (simp add: target_array_def dict_get_def)

text \<open>
  Claim C9.  \<open>ClusteringRecommender.recommend\<close>, called directly with a target profile,
  works on the vector \<open>v\<close> that holds the value of each taste dimension present and 5
  for each absent one: the cluster is the one predicted for the scaled \<open>v\<close>, and
  \<open>distanceFromTarget\<close> is the Euclidean distance between the mean taste of the quality
  shots and \<open>v\<close>.  An absent dimension is no reason to fail: on a fitted recommender
  whose assigned cluster is not empty and has a centre, with no text-valued parameter
  column, the call returns a recommendation.  The result is that of the profile
  completed with 5s.
\<close>

theorem recommend_defaults:
  assumes "historical_shots r = Some hist"
    and "v = (case map_of tp ''sweetness'' of None \<Rightarrow> 5 | Some x \<Rightarrow> x,
              case map_of tp ''acidity'' of None \<Rightarrow> 5 | Some x \<Rightarrow> x,
              case map_of tp ''bitterness'' of None \<Rightarrow> 5 | Some x \<Rightarrow> x,
              case map_of tp ''body'' of None \<Rightarrow> 5 | Some x \<Rightarrow> x)"
    and "cluster_shots = filter (\<lambda>s. cluster s = predict r (transform r v)) (rows hist)"
    and "quality_shots = select_quality_shots cluster_shots"
  shows "(cluster_shots \<noteq> [] \<and> predict r (transform r v) < length (centers r) \<and>
          (\<forall>p\<in>set parameter_features. columns hist p \<noteq> Some other_dtype) \<longrightarrow>
            (\<exists>rec. recommend pd r tp cons cur = Inr rec)) \<and>
         (recommend pd r tp cons cur = Inr rec \<longrightarrow>
            clusterSize rec = length cluster_shots \<and>
            qualityShotsCount rec = length quality_shots \<and>
            distanceFromTarget rec =
              euclid (mean (map sweetness quality_shots), mean (map acidity quality_shots),
                      mean (map bitterness quality_shots), mean (map body quality_shots)) v) \<and>
         recommend pd r tp cons cur = recommend pd r (with_defaults tp) cons cur \<and>
         (\<forall>d\<in>set taste_features. d \<notin> fst ` set tp \<longrightarrow> map_of (with_defaults tp) d = Some 5)"
proof -
  have v: "v = target_array tp"
    unfolding assms(2) by (rule target_array_cases[symmetric])
  have 1: "\<exists>rec. recommend pd r tp cons cur = Inr rec"
    if "cluster_shots \<noteq> [] \<and> predict r (transform r v) < length (centers r) \<and>
        (\<forall>p\<in>set parameter_features. columns hist p \<noteq> Some other_dtype)"
    using recommend_succeeds[OF assms(1), of tp pd cons cur] that
    unfolding assms(3) v by blast
  have 2: "clusterSize rec = length cluster_shots \<and>
           qualityShotsCount rec = length quality_shots \<and>
           distanceFromTarget rec =
              euclid (mean (map sweetness quality_shots), mean (map acidity quality_shots),
                      mean (map bitterness quality_shots), mean (map body quality_shots)) v"
    if "recommend pd r tp cons cur = Inr rec"
    using recommend_Inr_fields[OF that assms(1)]
    unfolding assms(4) assms(3) v by blast
  have 3: "recommend pd r tp cons cur = recommend pd r (with_defaults tp) cons cur"
    by (simp add: recommend_with_defaults)
  have 4: "\<forall>d\<in>set taste_features. d \<notin> fst ` set tp \<longrightarrow> map_of (with_defaults tp) d = Some 5"
    by (auto simp: map_of_with_defaults map_of_eq_None_iff split: option.splits
             dest: map_of_SomeD intro: rev_image_eqI)
  from 1 2 3 4 show ?thesis by blast
qed

lemma sqrt_nine: "sqrt 9 = 3"
  by (rule real_sqrt_unique) simp_all

lemma example_nearest_default:
  "nearest [(0, 0, 0, 0), (3, 3, 3, 3)] (- 3, 0, 0, 0) = 0"
  by (simp add: nearest_def)

lemma example_with_defaults:
  "with_defaults [(''acidity'', 5), (''bitterness'', 3), (''body'', 7)] =
     [(''acidity'', 5), (''bitterness'', 3), (''body'', 7), (''sweetness'', 5)]"
  by (simp add: with_defaults_def taste_features_def)

lemma numeric_predict:
  "predict numeric_recommender (transform numeric_recommender (5, 5, 3, 7)) = 0"
  by (simp add: numeric_recommender_def example_recommender_def example_nearest_default)

lemma numeric_cluster:
  "filter (\<lambda>s. cluster s = 0) (rows numeric_frame) =
     [example_shot 5 0 True ''light'', example_shot 7 0 True ''dark'',
      example_shot 9 0 False ''dark'']"
  by (simp add: numeric_frame_def example_shot_def)

lemma numeric_distance:
  "euclid (mean (map sweetness [example_shot 7 0 True ''dark'', example_shot 9 0 False ''dark'']),
           mean (map acidity [example_shot 7 0 True ''dark'', example_shot 9 0 False ''dark'']),
           mean (map bitterness [example_shot 7 0 True ''dark'', example_shot 9 0 False ''dark'']),
           mean (map body [example_shot 7 0 True ''dark'', example_shot 9 0 False ''dark'']))
          (5, 5, 3, 7) = 3"
  by (simp add: example_shot_def mean_def sqrt_nine)

theorem recommend_defaults_witness:
  "(\<exists>rec. recommend example_pandas numeric_recommender
            [(''acidity'', 5), (''bitterness'', 3), (''body'', 7)] None None = Inr rec \<and>
          clusterSize rec = 3 \<and> qualityShotsCount rec = 2 \<and> distanceFromTarget rec = 3) \<and>
   recommend example_pandas numeric_recommender
     [(''acidity'', 5), (''bitterness'', 3), (''body'', 7)] None None =
   recommend example_pandas numeric_recommender
     [(''acidity'', 5), (''bitterness'', 3), (''body'', 7), (''sweetness'', 5)] None None \<and>
   map_of (with_defaults [(''acidity'', 5), (''bitterness'', 3), (''body'', 7)]) ''sweetness'' =
     Some 5"
proof -
  let ?tp = "[(''acidity'', 5), (''bitterness'', 3), (''body'', 7 :: real)]"
  let ?cs = "[example_shot 5 0 True ''light'', example_shot 7 0 True ''dark'',
              example_shot 9 0 False ''dark'']"
  let ?qs = "[example_shot 7 0 True ''dark'', example_shot 9 0 False ''dark'']"
  have h: "historical_shots numeric_recommender = Some numeric_frame"
    by (simp add: numeric_recommender_def)
  have v: "(5, 5, 3, 7) =
             (case map_of ?tp ''sweetness'' of None \<Rightarrow> 5 | Some x \<Rightarrow> x,
              case map_of ?tp ''acidity'' of None \<Rightarrow> 5 | Some x \<Rightarrow> x,
              case map_of ?tp ''bitterness'' of None \<Rightarrow> 5 | Some x \<Rightarrow> x,
              case map_of ?tp ''body'' of None \<Rightarrow> 5 | Some x \<Rightarrow> (x :: real))"
    by simp
  have cs: "?cs = filter (\<lambda>s. cluster s = predict numeric_recommender
                     (transform numeric_recommender (5, 5, 3, 7))) (rows numeric_frame)"
    unfolding numeric_predict by (simp add: numeric_cluster)
  have qs: "?qs = select_quality_shots ?cs"
    by (simp add: example_quality)
  note th = recommend_defaults[OF h v cs qs, of example_pandas None None]
  have c1: "?cs \<noteq> [] \<and>
            predict numeric_recommender (transform numeric_recommender (5, 5, 3, 7))
              < length (centers numeric_recommender) \<and>
            (\<forall>p\<in>set parameter_features. columns numeric_frame p \<noteq> Some other_dtype)"
    unfolding numeric_predict
    by (simp add: numeric_recommender_def example_recommender_def parameter_features_def
          numeric_frame_def numeric_columns_def)
  from th c1 obtain rec where
    rec: "recommend example_pandas numeric_recommender ?tp None None = Inr rec"
    by blast
  from th[of rec] rec
  have f: "clusterSize rec = length ?cs" "qualityShotsCount rec = length ?qs"
    "distanceFromTarget rec =
       euclid (mean (map sweetness ?qs), mean (map acidity ?qs),
               mean (map bitterness ?qs), mean (map body ?qs)) (5, 5, 3, 7)"
    by blast+
  from f(1,2) have f12: "clusterSize rec = 3" "qualityShotsCount rec = 2"
    by simp_all
  from f(3) have f3: "distanceFromTarget rec = 3"
    by (simp only: numeric_distance)
  note f' = f12 f3
  from th[of rec]
  have e: "recommend example_pandas numeric_recommender ?tp None None =
           recommend example_pandas numeric_recommender (with_defaults ?tp) None None"
    by blast
  have "''sweetness'' \<in> set taste_features \<and> ''sweetness'' \<notin> fst ` set ?tp"
    by (simp add: taste_features_def)
  with th[of rec] have m: "map_of (with_defaults ?tp) ''sweetness'' = Some 5"
    by blast
  from rec f' e m show ?thesis
    unfolding example_with_defaults by blast
qed


subsection \<open>Fitting and the minimum number of shots\<close>

text \<open>
  Claim C3, as the code has it.  \<open>fit\<close> has no minimum number of shots and no
  \<open>InsufficientData\<close> error: it returns a fitted recommender whenever the clustering
  library returns a clustering of the scaled profiles.  The size requirement is a test
  in \<open>load_models\<close>: on fewer than 10 historical shots it does not call \<open>fit\<close> and
  leaves the recommender unset, and \<open>/recommend\<close> then answers 503.
\<close>

theorem fit_unguarded_load_models_threshold:
  "(kmeans_fit sk k (map (scaler_fit sk (map taste_of (rows df))) (map taste_of (rows df))) = Inr km \<and>
    length (labels km) = length (rows df) \<longrightarrow>
      (\<exists>r. fit sk k df = Inr r)) \<and>
   (length (rows df) < 10 \<longrightarrow>
      load_models sk model_loaded (Some df) = None \<and>
      recommend_endpoint pd (load_models sk model_loaded (Some df)) data =
        (ErrorResponse RecommenderNotAvailable 503, 0))"
  by (simp add: fit_def Let_def load_models_def recommend_endpoint_def)

lemma two_shots_fit: "\<not> isl (fit single_cluster 1 two_shots)"
  by (simp add: fit_def single_cluster_def two_shots_def Let_def)

text \<open>\<open>fit\<close> succeeds on a frame of two shots.\<close>

theorem fit_short_input_counterexample:
  "length (rows two_shots) = 2 \<and> \<not> isl (fit single_cluster 1 two_shots)"
proof
  show "length (rows two_shots) = 2" by (simp add: two_shots_def)
  show "\<not> isl (fit single_cluster 1 two_shots)" by (rule two_shots_fit)
qed

theorem fit_unguarded_load_models_threshold_witness:
  "(\<exists>r. fit single_cluster 1 two_shots = Inr r) \<and>
   load_models single_cluster True (Some two_shots) = None \<and>
   recommend_endpoint example_pandas (load_models single_cluster True (Some two_shots)) None =
     (ErrorResponse RecommenderNotAvailable 503, 0)"
proof -
  let ?km = "\<lparr>labels = replicate 2 0,
             cluster_centers = [mean_taste (map (scaler_fit single_cluster (map taste_of (rows two_shots)))
                                   (map taste_of (rows two_shots)))],
             km_predict = (\<lambda>x. 0)\<rparr>"
  note th = fit_unguarded_load_models_threshold
              [of single_cluster 1 two_shots ?km True example_pandas None]
  have a: "kmeans_fit single_cluster 1
             (map (scaler_fit single_cluster (map taste_of (rows two_shots)))
                  (map taste_of (rows two_shots))) = Inr ?km"
    by (simp add: single_cluster_def two_shots_def numeral_2_eq_2)
  have b: "length (labels ?km) = length (rows two_shots)"
    by (simp add: two_shots_def)
  have c: "length (rows two_shots) < 10"
    by (simp add: two_shots_def)
  from th a b c show ?thesis by blast
qed


end
